theory Spec2Isabelle
  imports Complex_Main
begin

section \<open>JavaScript values\<close>

text \<open>
  The session store (\<^verbatim>\<open>src/context/AuthContext.js\<close>) and the API client
  (\<^verbatim>\<open>src/services/api.js\<close>) handle untyped JavaScript values: the body of a server
  response, the result of \<^verbatim>\<open>JSON.parse\<close>, the fields of the session. They are modelled
  by one datatype. Numbers are the finite ones (every finite double is a rational);
  an object is the list of its own properties in enumeration order.
\<close>

datatype jsval =
    JUndefined
  | JNull
  | JBool bool
  | JNum rat
  | JStr string
  | JArr "jsval list"
  | JObj "(string \<times> jsval) list"

text \<open>Truthiness, as \<^verbatim>\<open>if (v)\<close>, \<^verbatim>\<open>!v\<close>, \<^verbatim>\<open>a && b\<close>, \<^verbatim>\<open>a || b\<close> and \<^verbatim>\<open>c ? x : y\<close> test it.\<close>

fun truthy :: "jsval \<Rightarrow> bool" where
  "truthy JUndefined = False"
| "truthy JNull = False"
| "truthy (JBool b) = b"
| "truthy (JNum n) = (n \<noteq> 0)"
| "truthy (JStr s) = (s \<noteq> [])"
| "truthy (JArr xs) = True"
| "truthy (JObj kvs) = True"

text \<open>\<^verbatim>\<open>a || b\<close>: the left operand when it is truthy, the right one otherwise.\<close>

definition js_or :: "jsval \<Rightarrow> jsval \<Rightarrow> jsval" where
  "js_or a b = (if truthy a then a else b)"

text \<open>The two values on which a property access throws, and which \<^verbatim>\<open>?.\<close> short-cuts.\<close>

fun nullish :: "jsval \<Rightarrow> bool" where
  "nullish JUndefined = True"
| "nullish JNull = True"
| "nullish v = False"

text \<open>
  \<^verbatim>\<open>v.k\<close> on a value that is not nullish, for the property names the program reads
  (\<^verbatim>\<open>token\<close>, \<^verbatim>\<open>user\<close>, \<^verbatim>\<open>error\<close>, \<^verbatim>\<open>role\<close>): an object gives its own property or
  \<^verbatim>\<open>undefined\<close>; a string, number, boolean or array has no property of these names.
\<close>

fun js_prop :: "jsval \<Rightarrow> string \<Rightarrow> jsval" where
  "js_prop (JObj kvs) k = (case map_of kvs k of Some v \<Rightarrow> v | None \<Rightarrow> JUndefined)"
| "js_prop v k = JUndefined"

text \<open>\<^verbatim>\<open>v?.k\<close>: \<^verbatim>\<open>undefined\<close> on a nullish value, the property otherwise.\<close>

definition js_prop_opt :: "jsval \<Rightarrow> string \<Rightarrow> jsval" where
  "js_prop_opt v k = (if nullish v then JUndefined else js_prop v k)"

text \<open>
  \<^verbatim>\<open>a === b\<close> and the comparison of \<^verbatim>\<open>Array.prototype.includes\<close>. Primitive values
  compare by value. Objects and arrays compare by identity, which the values of this model
  do not carry: a comparison with an object or an array is false here (the callers
  compare roles with string literals).
\<close>

fun strict_eq :: "jsval \<Rightarrow> jsval \<Rightarrow> bool" where
  "strict_eq JUndefined b = (b = JUndefined)"
| "strict_eq JNull b = (b = JNull)"
| "strict_eq (JBool x) b = (b = JBool x)"
| "strict_eq (JNum x) b = (b = JNum x)"
| "strict_eq (JStr x) b = (b = JStr x)"
| "strict_eq (JArr xs) b = False"
| "strict_eq (JObj kvs) b = False"

fun array_includes :: "jsval list \<Rightarrow> jsval \<Rightarrow> bool" where
  "array_includes [] v = False"
| "array_includes (x # xs) v = (strict_eq x v \<or> array_includes xs v)"

section \<open>The session store\<close>

text \<open>The state of \<^verbatim>\<open>authReducer\<close>, with the fields of \<^verbatim>\<open>initialState\<close>.\<close>

record session =
  user :: jsval
  token :: jsval
  isAuthenticated :: bool
  isLoading :: bool
  error :: jsval

definition initialState :: session where
  "initialState =
     \<lparr>user = JNull, token = JNull, isAuthenticated = False, isLoading = True, error = JNull\<rparr>"

text \<open>
  The actions of \<^verbatim>\<open>authActions\<close>. \<^verbatim>\<open>LOGIN_SUCCESS\<close> and \<^verbatim>\<open>LOAD_USER_FROM_STORAGE\<close>
  carry \<^verbatim>\<open>payload.user\<close> and \<^verbatim>\<open>payload.token\<close>, \<^verbatim>\<open>LOGIN_FAILURE\<close> carries its payload;
  \<^verbatim>\<open>OTHER\<close> is an action of any other type (the \<^verbatim>\<open>default\<close> case).
\<close>

datatype action =
    LOGIN_START
  | LOGIN_SUCCESS jsval jsval
  | LOGIN_FAILURE jsval
  | LOGOUT
  | LOAD_USER_FROM_STORAGE jsval jsval
  | CLEAR_ERROR
  | OTHER

fun authReducer :: "session \<Rightarrow> action \<Rightarrow> session" where
  "authReducer state LOGIN_START = state\<lparr>isLoading := True, error := JNull\<rparr>"
| "authReducer state (LOGIN_SUCCESS u t) =
     state\<lparr>user := u, token := t, isAuthenticated := True, isLoading := False, error := JNull\<rparr>"
| "authReducer state (LOGIN_FAILURE p) =
     state\<lparr>user := JNull, token := JNull, isAuthenticated := False, isLoading := False,
       error := p\<rparr>"
| "authReducer state LOGOUT =
     state\<lparr>user := JNull, token := JNull, isAuthenticated := False, isLoading := False,
       error := JNull\<rparr>"
| "authReducer state (LOAD_USER_FROM_STORAGE u t) =
     state\<lparr>user := u, token := t, isAuthenticated := (if truthy t then True else False),
       isLoading := False\<rparr>"
| "authReducer state CLEAR_ERROR = state\<lparr>error := JNull\<rparr>"
| "authReducer state OTHER = state"

text \<open>The role helpers of \<^verbatim>\<open>AuthProvider\<close>; they read the current state only.\<close>

definition isAdmin :: "session \<Rightarrow> bool" where
  "isAdmin state = strict_eq (js_prop_opt (user state) ''role'') (JStr ''admin'')"

definition isClinician :: "session \<Rightarrow> bool" where
  "isClinician state = strict_eq (js_prop_opt (user state) ''role'') (JStr ''clinician'')"

text \<open>
  \<^verbatim>\<open>hasRole(roles)\<close>: false without a truthy user; otherwise membership of the user's
  role when \<^verbatim>\<open>roles\<close> is an array, strict equality with \<^verbatim>\<open>roles\<close> when it is not.
\<close>

definition hasRole :: "session \<Rightarrow> jsval \<Rightarrow> bool" where
  "hasRole state roles =
     (if \<not> truthy (user state) then False
      else (case roles of
              JArr rs \<Rightarrow> array_includes rs (js_prop (user state) ''role'')
            | _ \<Rightarrow> strict_eq (js_prop (user state) ''role'') roles))"

section \<open>The platform\<close>

text \<open>
  An HTTP response as the client sees it, and a thrown error with the three properties the
  program reads: \<^verbatim>\<open>error.message\<close>, whether \<^verbatim>\<open>error.request\<close> is set (the request
  object itself is opaque), and \<^verbatim>\<open>error.response\<close>, absent when no response arrived.
\<close>

record http_response =
  status :: int
  data :: jsval

record js_error =
  message :: string
  request :: bool
  response :: "http_response option"

text \<open>
  The built-ins of the JavaScript engine and of the browser that the program calls are
  parameters of the model, so that every theorem holds for whatever platform runs the
  program: \<^verbatim>\<open>JSON.parse\<close> (a value, or the thrown \<^verbatim>\<open>SyntaxError\<close>), \<^verbatim>\<open>JSON.stringify\<close>
  (\<open>None\<close> is the result \<^verbatim>\<open>undefined\<close>), the decimal text of a number, the wording of
  the \<^verbatim>\<open>TypeError\<close> of a property read on \<^verbatim>\<open>null\<close> or \<^verbatim>\<open>undefined\<close>, whether
  \<^verbatim>\<open>localStorage\<close>, holding given contents, accepts the write of a text under a key (a
  full or disabled storage refuses, and \<^verbatim>\<open>setItem\<close> throws), and the wording of the
  error thrown then.
\<close>

record js_platform =
  JSON_parse :: "string \<Rightarrow> js_error + jsval"
  JSON_stringify :: "jsval \<Rightarrow> string option"
  Number_toString :: "rat \<Rightarrow> string"
  TypeError_message :: "jsval \<Rightarrow> string \<Rightarrow> string"
  Storage_accepts :: "(string \<rightharpoonup> string) \<Rightarrow> string \<Rightarrow> string \<Rightarrow> bool"
  QuotaExceeded_message :: string

fun join_comma :: "string list \<Rightarrow> string" where
  "join_comma [] = []"
| "join_comma [s] = s"
| "join_comma (s # t # ss) = s @ '','' @ join_comma (t # ss)"

text \<open>
  The string conversion that \<^verbatim>\<open>localStorage.setItem\<close>, \<^verbatim>\<open>JSON.parse\<close> and a template
  literal apply to their argument. A string is left as it is.
\<close>

fun to_string :: "js_platform \<Rightarrow> jsval \<Rightarrow> string" where
  "to_string P JUndefined = ''undefined''"
| "to_string P JNull = ''null''"
| "to_string P (JBool b) = (if b then ''true'' else ''false'')"
| "to_string P (JNum n) = Number_toString P n"
| "to_string P (JStr s) = s"
| "to_string P (JArr xs) =
     join_comma (map (\<lambda>x. if nullish x then [] else to_string P x) xs)"
| "to_string P (JObj kvs) = ''[object Object]''"

text \<open>\<^verbatim>\<open>v.k\<close> where \<^verbatim>\<open>v\<close> may be nullish: the read throws a \<^verbatim>\<open>TypeError\<close> then.\<close>

definition js_member :: "js_platform \<Rightarrow> jsval \<Rightarrow> string \<Rightarrow> js_error + jsval" where
  "js_member P v k =
     (if nullish v
      then Inl \<lparr>message = TypeError_message P v k, request = False, response = None\<rparr>
      else Inr (js_prop v k))"

text \<open>The result of \<^verbatim>\<open>JSON.stringify(v)\<close> as a value: a string or \<^verbatim>\<open>undefined\<close>.\<close>

definition stringify_value :: "js_platform \<Rightarrow> jsval \<Rightarrow> jsval" where
  "stringify_value P v = (case JSON_stringify P v of None \<Rightarrow> JUndefined | Some s \<Rightarrow> JStr s)"

section \<open>The browser\<close>

text \<open>
  What the program reads and writes outside its own state: \<^verbatim>\<open>localStorage\<close>, the value
  last assigned to \<^verbatim>\<open>window.location.href\<close> (an assignment starts the navigation to it),
  and the calls of \<^verbatim>\<open>console.error\<close>.
\<close>

record browser =
  localStorage :: "string \<rightharpoonup> string"
  location_href :: string
  console :: "jsval list list"

definition getItem :: "browser \<Rightarrow> string \<Rightarrow> jsval" where
  "getItem b k = (case localStorage b k of None \<Rightarrow> JNull | Some s \<Rightarrow> JStr s)"

text \<open>
  \<^verbatim>\<open>localStorage.setItem(k, v)\<close>: the text of \<^verbatim>\<open>v\<close> is stored under \<^verbatim>\<open>k\<close>, or the storage
  refuses it: then nothing is written and a \<^verbatim>\<open>QuotaExceededError\<close> is thrown.
\<close>

definition write_item :: "browser \<Rightarrow> string \<Rightarrow> string \<Rightarrow> browser" where
  "write_item b k s = b\<lparr>localStorage := (localStorage b)(k \<mapsto> s)\<rparr>"

definition setItem :: "js_platform \<Rightarrow> browser \<Rightarrow> string \<Rightarrow> jsval \<Rightarrow> js_error + browser" where
  "setItem P b k v =
     (if Storage_accepts P (localStorage b) k (to_string P v)
      then Inr (write_item b k (to_string P v))
      else Inl \<lparr>message = QuotaExceeded_message P, request = False, response = None\<rparr>)"

definition removeItem :: "browser \<Rightarrow> string \<Rightarrow> browser" where
  "removeItem b k = b\<lparr>localStorage := (localStorage b)(k := None)\<rparr>"

definition console_error :: "browser \<Rightarrow> jsval list \<Rightarrow> browser" where
  "console_error b args = b\<lparr>console := console b @ [args]\<rparr>"

section \<open>The API client\<close>

text \<open>
  A request as \<^verbatim>\<open>api.get\<close>, \<^verbatim>\<open>api.post\<close>, \<^verbatim>\<open>api.put\<close> and \<^verbatim>\<open>api.delete\<close> hand it to
  the interceptors: the headers are those of \<^verbatim>\<open>axios.create\<close>.
\<close>

record request_config =
  req_method :: string
  req_url :: string
  req_headers :: "string \<rightharpoonup> string"
  req_data :: jsval
  req_params :: jsval

definition api_config :: "string \<Rightarrow> string \<Rightarrow> jsval \<Rightarrow> jsval \<Rightarrow> request_config" where
  "api_config m u d ps =
     \<lparr>req_method = m, req_url = u,
      req_headers = [''Content-Type'' \<mapsto> ''application/json''],
      req_data = d, req_params = ps\<rparr>"

text \<open>
  The network: what a request settles to. With the default \<^verbatim>\<open>validateStatus\<close> of the
  client, a response with a status outside 200..299 is a rejection whose error carries
  the response, and a request that gets no response is a rejection whose error carries
  none.
\<close>

type_synonym adapter = "request_config \<Rightarrow> js_error + http_response"

text \<open>The request interceptor (the handler for a failed earlier interceptor never runs:
  there is none).\<close>

definition request_interceptor :: "js_platform \<Rightarrow> browser \<Rightarrow> request_config \<Rightarrow> request_config" where
  "request_interceptor P b config =
     (let token = getItem b ''authToken'' in
      if truthy token
      then config\<lparr>req_headers := (req_headers config)(''Authorization'' \<mapsto> ''Bearer '' @ to_string P token)\<rparr>
      else config)"

text \<open>The two handlers of the response interceptor.\<close>

definition response_fulfilled :: "http_response \<Rightarrow> http_response" where
  "response_fulfilled r = r"

definition response_rejected :: "browser \<Rightarrow> js_error \<Rightarrow> browser \<times> (js_error + http_response)" where
  "response_rejected b err =
     (let b1 = (if map_option status (response err) = Some 401
                then (removeItem (removeItem b ''authToken'') ''user'')\<lparr>location_href := ''/login''\<rparr>
                else b);
          b2 = (if response err = None
                then console_error b1 [JStr ''Network error:'', JStr (message err)]
                else b1)
      in (b2, Inl err))"

text \<open>One call through the client: request interceptor, network, response interceptor.\<close>

definition api_request ::
  "js_platform \<Rightarrow> adapter \<Rightarrow> browser \<Rightarrow> request_config \<Rightarrow> browser \<times> (js_error + http_response)" where
  "api_request P net b config =
     (case net (request_interceptor P b config) of
        Inr r \<Rightarrow> (b, Inr (response_fulfilled r))
      | Inl err \<Rightarrow> response_rejected b err)"

text \<open>\<^verbatim>\<open>authAPI\<close>: the two calls return \<^verbatim>\<open>response.data\<close>; \<^verbatim>\<open>logout\<close> only erases.\<close>

definition authAPI_login ::
  "js_platform \<Rightarrow> adapter \<Rightarrow> browser \<Rightarrow> jsval \<Rightarrow> browser \<times> (js_error + jsval)" where
  "authAPI_login P net b credentials =
     (case api_request P net b (api_config ''post'' ''/auth/login'' credentials JUndefined) of
        (b', Inr r) \<Rightarrow> (b', Inr (data r))
      | (b', Inl err) \<Rightarrow> (b', Inl err))"

definition authAPI_register ::
  "js_platform \<Rightarrow> adapter \<Rightarrow> browser \<Rightarrow> jsval \<Rightarrow> browser \<times> (js_error + jsval)" where
  "authAPI_register P net b userData =
     (case api_request P net b (api_config ''post'' ''/auth/register'' userData JUndefined) of
        (b', Inr r) \<Rightarrow> (b', Inr (data r))
      | (b', Inl err) \<Rightarrow> (b', Inl err))"

definition authAPI_logout :: "browser \<Rightarrow> browser" where
  "authAPI_logout b = removeItem (removeItem b ''authToken'') ''user''"

text \<open>\<^verbatim>\<open>handleApiError\<close>: the object it returns, with its keys in the order written.\<close>

definition handleApiError :: "js_error \<Rightarrow> jsval" where
  "handleApiError err =
     (case response err of
        Some r \<Rightarrow>
          JObj [(''message'', js_or (js_prop_opt (data r) ''error'') (JStr ''An error occurred'')),
                (''status'', JNum (of_int (status r))),
                (''details'', data r)]
      | None \<Rightarrow>
          if request err
          then JObj [(''message'', JStr ''Network error. Please check your connection.''),
                     (''status'', JNum 0)]
          else JObj [(''message'', js_or (JStr (message err)) (JStr ''An unexpected error occurred'')),
                     (''status'', JNum (- 1))])"

section \<open>The operations of the session store\<close>

text \<open>
  The application state is the reducer's state and the browser. A \<^verbatim>\<open>dispatch\<close> is one
  application of \<^verbatim>\<open>authReducer\<close>; an \<^verbatim>\<open>await\<close> is modelled by its outcome, so an
  operation is one step (what other handlers do while a request is in flight is not part
  of the model).
\<close>

type_synonym app = "session \<times> browser"

text \<open>
  The effect that \<^verbatim>\<open>AuthProvider\<close> runs after its first render (the \<^verbatim>\<open>restore()\<close> of
  the specification).
\<close>

definition restore :: "js_platform \<Rightarrow> app \<Rightarrow> app" where
  "restore P a =
     (case a of (state, b) \<Rightarrow>
        let token = getItem b ''authToken'';
            usr = getItem b ''user''
        in if truthy token \<and> truthy usr
           then (case JSON_parse P (to_string P usr) of
                   Inr parsedUser \<Rightarrow>
                     (authReducer state (LOAD_USER_FROM_STORAGE parsedUser token), b)
                 | Inl e \<Rightarrow>
                     (authReducer state (LOAD_USER_FROM_STORAGE JNull JNull),
                      removeItem (removeItem b ''authToken'') ''user''))
           else (authReducer state (LOAD_USER_FROM_STORAGE JNull JNull), b))"

text \<open>
  A page load: \<^verbatim>\<open>useReducer(authReducer, initialState)\<close>, then the effect above, on the
  storage the browser holds at that moment.
\<close>

definition AuthProvider_mount :: "js_platform \<Rightarrow> browser \<Rightarrow> app" where
  "AuthProvider_mount P b = restore P (initialState, b)"


text \<open>
  The statements of \<^verbatim>\<open>login\<close> and \<^verbatim>\<open>register\<close> between the \<^verbatim>\<open>await\<close> and the
  \<^verbatim>\<open>dispatch\<close>: the two writes to storage, in order. Each of the four steps can throw
  (a property read on a nullish response, a write that the storage refuses), and what
  was written before stays written. The result carries \<^verbatim>\<open>response.user\<close> and
  \<^verbatim>\<open>response.token\<close> for the payload.
\<close>

definition store_credentials ::
  "js_platform \<Rightarrow> browser \<Rightarrow> jsval \<Rightarrow> browser \<times> (js_error + jsval \<times> jsval)" where
  "store_credentials P b resp =
     (case js_member P resp ''token'' of
        Inl e \<Rightarrow> (b, Inl e)
      | Inr tok \<Rightarrow>
          (case setItem P b ''authToken'' tok of
             Inl e \<Rightarrow> (b, Inl e)
           | Inr b1 \<Rightarrow>
               (case js_member P resp ''user'' of
                  Inl e \<Rightarrow> (b1, Inl e)
                | Inr usr \<Rightarrow>
                    (case setItem P b1 ''user'' (stringify_value P usr) of
                       Inl e \<Rightarrow> (b1, Inl e)
                     | Inr b2 \<Rightarrow> (b2, Inr (usr, tok))))))"

text \<open>
  The case in which these statements fail after a write: the response is not nullish,
  the storage accepts the token and then refuses the text of the user.
\<close>

definition user_write_refused :: "js_platform \<Rightarrow> browser \<Rightarrow> jsval \<Rightarrow> bool" where
  "user_write_refused P b resp =
     (\<not> nullish resp
      \<and> Storage_accepts P (localStorage b) ''authToken'' (to_string P (js_prop resp ''token''))
      \<and> \<not> Storage_accepts P
            ((localStorage b)(''authToken'' \<mapsto> to_string P (js_prop resp ''token'')))
            ''user'' (to_string P (stringify_value P (js_prop resp ''user''))))"

text \<open>\<^verbatim>\<open>error.response?.data?.error || fallback\<close>, the payload of \<^verbatim>\<open>LOGIN_FAILURE\<close>.\<close>

definition errorMessage :: "js_error \<Rightarrow> string \<Rightarrow> jsval" where
  "errorMessage err fallback =
     js_or (case response err of
              None \<Rightarrow> JUndefined
            | Some r \<Rightarrow> js_prop_opt (data r) ''error'')
           (JStr fallback)"

text \<open>
  \<^verbatim>\<open>login\<close>: \<^verbatim>\<open>LOGIN_START\<close>, the call, then either the writes to storage and
  \<^verbatim>\<open>LOGIN_SUCCESS\<close>, returning the response, or the \<^verbatim>\<open>catch\<close> clause, which receives a
  rejection of the call as well as an error thrown by the statements after it, dispatches
  \<^verbatim>\<open>LOGIN_FAILURE\<close> and throws the error again.
\<close>

definition login :: "js_platform \<Rightarrow> adapter \<Rightarrow> app \<Rightarrow> jsval \<Rightarrow> app \<times> (js_error + jsval)" where
  "login P net a credentials =
     (case a of (state, b) \<Rightarrow>
        let s1 = authReducer state LOGIN_START in
        case authAPI_login P net b credentials of
          (b1, Inl err) \<Rightarrow>
            ((authReducer s1 (LOGIN_FAILURE (errorMessage err ''Login failed'')), b1), Inl err)
        | (b1, Inr resp) \<Rightarrow>
            (case store_credentials P b1 resp of
               (b2, Inr (usr, tok)) \<Rightarrow> ((authReducer s1 (LOGIN_SUCCESS usr tok), b2), Inr resp)
             | (b2, Inl err) \<Rightarrow>
                 ((authReducer s1 (LOGIN_FAILURE (errorMessage err ''Login failed'')), b2),
                  Inl err)))"

text \<open>\<^verbatim>\<open>register\<close>: the same statements, with its own call and fallback message.\<close>

definition register :: "js_platform \<Rightarrow> adapter \<Rightarrow> app \<Rightarrow> jsval \<Rightarrow> app \<times> (js_error + jsval)" where
  "register P net a userData =
     (case a of (state, b) \<Rightarrow>
        let s1 = authReducer state LOGIN_START in
        case authAPI_register P net b userData of
          (b1, Inl err) \<Rightarrow>
            ((authReducer s1 (LOGIN_FAILURE (errorMessage err ''Registration failed'')), b1),
             Inl err)
        | (b1, Inr resp) \<Rightarrow>
            (case store_credentials P b1 resp of
               (b2, Inr (usr, tok)) \<Rightarrow> ((authReducer s1 (LOGIN_SUCCESS usr tok), b2), Inr resp)
             | (b2, Inl err) \<Rightarrow>
                 ((authReducer s1 (LOGIN_FAILURE (errorMessage err ''Registration failed'')), b2),
                  Inl err)))"

text \<open>
  The statements that \<^verbatim>\<open>login\<close> and \<^verbatim>\<open>register\<close> have in common, given the outcome
  \<open>called\<close> of the call and the fallback message; the proofs go through it.
\<close>

definition auth_flow ::
  "js_platform \<Rightarrow> string \<Rightarrow> session \<Rightarrow> browser \<times> (js_error + jsval) \<Rightarrow> app \<times> (js_error + jsval)" where
  "auth_flow P fallback state called =
     (let s1 = authReducer state LOGIN_START in
      case called of
        (b1, Inl err) \<Rightarrow>
          ((authReducer s1 (LOGIN_FAILURE (errorMessage err fallback)), b1), Inl err)
      | (b1, Inr resp) \<Rightarrow>
          (case store_credentials P b1 resp of
             (b2, Inr (usr, tok)) \<Rightarrow> ((authReducer s1 (LOGIN_SUCCESS usr tok), b2), Inr resp)
           | (b2, Inl err) \<Rightarrow>
               ((authReducer s1 (LOGIN_FAILURE (errorMessage err fallback)), b2), Inl err)))"

definition logout :: "app \<Rightarrow> app" where
  "logout a = (authReducer (fst a) LOGOUT, authAPI_logout (snd a))"

definition clearError :: "app \<Rightarrow> app" where
  "clearError a = (authReducer (fst a) CLEAR_ERROR, snd a)"

text \<open>
  The transitions of the session store as events, each call with its argument and with
  what the network answers, and the run of a list of events.
\<close>

datatype event =
    Restore
  | Login jsval "js_error + http_response"
  | Register jsval "js_error + http_response"
  | Logout
  | ClearError

fun step :: "js_platform \<Rightarrow> app \<Rightarrow> event \<Rightarrow> app" where
  "step P a Restore = restore P a"
| "step P a (Login credentials answer) = fst (login P (\<lambda>config. answer) a credentials)"
| "step P a (Register userData answer) = fst (register P (\<lambda>config. answer) a userData)"
| "step P a Logout = logout a"
| "step P a ClearError = clearError a"

definition run :: "js_platform \<Rightarrow> app \<Rightarrow> event list \<Rightarrow> app" where
  "run P a evs = foldl (step P) a evs"

text \<open>A field of the session is present when it is neither \<^verbatim>\<open>null\<close> nor \<^verbatim>\<open>undefined\<close>.\<close>

definition present :: "jsval \<Rightarrow> bool" where
  "present v = (\<not> nullish v)"

text \<open>
  What the session store takes on trust from outside, as a condition on an event in the
  state it meets: a \<^verbatim>\<open>restore()\<close> that parses the stored user gets a value that is
  present, and a response that \<^verbatim>\<open>login\<close> or \<^verbatim>\<open>register\<close> accepts carries a user and a
  token that are present.
\<close>

fun event_ok :: "js_platform \<Rightarrow> app \<Rightarrow> event \<Rightarrow> bool" where
  "event_ok P a Restore =
     (if truthy (getItem (snd a) ''authToken'') \<and> truthy (getItem (snd a) ''user'')
      then (case JSON_parse P (to_string P (getItem (snd a) ''user'')) of
              Inr v \<Rightarrow> present v
            | Inl e \<Rightarrow> True)
      else True)"
| "event_ok P a (Login credentials (Inr r)) =
     (nullish (data r) \<or> present (js_prop (data r) ''user'') \<and> present (js_prop (data r) ''token''))"
| "event_ok P a (Login credentials (Inl e)) = True"
| "event_ok P a (Register userData (Inr r)) =
     (nullish (data r) \<or> present (js_prop (data r) ''user'') \<and> present (js_prop (data r) ''token''))"
| "event_ok P a (Register userData (Inl e)) = True"
| "event_ok P a Logout = True"
| "event_ok P a ClearError = True"

fun well_formed :: "js_platform \<Rightarrow> app \<Rightarrow> event list \<Rightarrow> bool" where
  "well_formed P a [] = True"
| "well_formed P a (ev # evs) = (event_ok P a ev \<and> well_formed P (step P a ev) evs)"

section \<open>A sample engine\<close>

text \<open>
  The examples below need the built-ins at concrete arguments. \<open>sample_engine\<close> gives
  them on a fragment of JSON: texts without white space; the literals; integers of at
  most twenty digits; strings of printable characters, with the double quote and the
  backslash escaped; arrays; objects whose keys are distinct and are not numerals. On this
  fragment it computes what \<^verbatim>\<open>JSON.stringify\<close> and \<^verbatim>\<open>JSON.parse\<close> compute. A text outside
  the fragment is reported as a syntax error, and the examples use none. Its storage
  accepts every write; \<open>full_storage_engine\<close> is the same platform with a storage that
  refuses every write under the key \<^verbatim>\<open>user\<close>.
\<close>

definition dquote :: char where
  "dquote = CHR 0x22"

definition backslash :: char where
  "backslash = CHR 0x5C"

fun digits :: "nat \<Rightarrow> string" where
  "digits n =
     (if n < 10 then [''0123456789'' ! n] else digits (n div 10) @ [''0123456789'' ! (n mod 10)])"

definition integer_text :: "rat \<Rightarrow> string" where
  "integer_text n = (if n < 0 then ''-'' else []) @ digits (nat \<lfloor>\<bar>n\<bar>\<rfloor>)"

fun escape :: "string \<Rightarrow> string" where
  "escape [] = []"
| "escape (c # cs) =
     (if c = dquote \<or> c = backslash then backslash # c # escape cs else c # escape cs)"

definition quote :: "string \<Rightarrow> string" where
  "quote s = dquote # escape s @ [dquote]"

fun json_text :: "jsval \<Rightarrow> string option"
  and json_elements :: "jsval list \<Rightarrow> string list"
  and json_members :: "(string \<times> jsval) list \<Rightarrow> string list" where
  "json_text JUndefined = None"
| "json_text JNull = Some ''null''"
| "json_text (JBool b) = Some (if b then ''true'' else ''false'')"
| "json_text (JNum n) = Some (integer_text n)"
| "json_text (JStr s) = Some (quote s)"
| "json_text (JArr xs) = Some (''['' @ join_comma (json_elements xs) @ '']'')"
| "json_text (JObj kvs) = Some (''{'' @ join_comma (json_members kvs) @ ''}'')"
| "json_elements [] = []"
| "json_elements (x # xs) =
     (case json_text x of None \<Rightarrow> ''null'' | Some t \<Rightarrow> t) # json_elements xs"
| "json_members [] = []"
| "json_members (kv # kvs) =
     (case json_text (snd kv) of
        None \<Rightarrow> json_members kvs
      | Some t \<Rightarrow> (quote (fst kv) @ '':'' @ t) # json_members kvs)"

text \<open>The parser: the characters of a string after its opening quote.\<close>

fun parse_chars :: "string \<Rightarrow> string \<Rightarrow> (string \<times> string) option" where
  "parse_chars acc [] = None"
| "parse_chars acc [c] = (if c = dquote then Some (rev acc, []) else None)"
| "parse_chars acc (c # d # cs) =
     (if c = dquote then Some (rev acc, d # cs)
      else if c = backslash
      then (if d = dquote \<or> d = backslash then parse_chars (d # acc) cs else None)
      else parse_chars (c # acc) (d # cs))"

definition is_digit :: "char \<Rightarrow> bool" where
  "is_digit c = (c \<in> set ''0123456789'')"

definition digit_value :: "char \<Rightarrow> nat" where
  "digit_value c = of_char c - 48"

definition number_value :: "string \<Rightarrow> nat" where
  "number_value ds = foldl (\<lambda>n c. 10 * n + digit_value c) 0 ds"

definition parse_number :: "string \<Rightarrow> (jsval \<times> string) option" where
  "parse_number cs =
     (let neg = (take 1 cs = ''-'');
          body = (if neg then drop 1 cs else cs);
          ds = takeWhile is_digit body
      in if ds = [] \<or> (length ds > 1 \<and> take 1 ds = ''0'') then None
         else Some (JNum (if neg then - of_nat (number_value ds) else of_nat (number_value ds)),
                    dropWhile is_digit body))"

text \<open>The recursion of the parser is bounded by a count of steps, which the length of
  the text exceeds.\<close>

fun parse_value :: "nat \<Rightarrow> string \<Rightarrow> (jsval \<times> string) option"
  and parse_elements :: "nat \<Rightarrow> jsval list \<Rightarrow> string \<Rightarrow> (jsval list \<times> string) option"
  and parse_members ::
    "nat \<Rightarrow> (string \<times> jsval) list \<Rightarrow> string \<Rightarrow> ((string \<times> jsval) list \<times> string) option" where
  "parse_value 0 cs = None"
| "parse_value (Suc n) cs =
     (if take 4 cs = ''null'' then Some (JNull, drop 4 cs)
      else if take 4 cs = ''true'' then Some (JBool True, drop 4 cs)
      else if take 5 cs = ''false'' then Some (JBool False, drop 5 cs)
      else if take 1 cs = [dquote]
      then (case parse_chars [] (drop 1 cs) of
              None \<Rightarrow> None
            | Some (s, r) \<Rightarrow> Some (JStr s, r))
      else if take 2 cs = ''[]'' then Some (JArr [], drop 2 cs)
      else if take 1 cs = ''[''
      then (case parse_elements n [] (drop 1 cs) of
              None \<Rightarrow> None
            | Some (xs, r) \<Rightarrow> Some (JArr xs, r))
      else if take 2 cs = ''{}'' then Some (JObj [], drop 2 cs)
      else if take 1 cs = ''{''
      then (case parse_members n [] (drop 1 cs) of
              None \<Rightarrow> None
            | Some (kvs, r) \<Rightarrow> Some (JObj kvs, r))
      else parse_number cs)"
| "parse_elements 0 acc cs = None"
| "parse_elements (Suc n) acc cs =
     (case parse_value n cs of
        None \<Rightarrow> None
      | Some (v, r) \<Rightarrow>
          if take 1 r = '','' then parse_elements n (acc @ [v]) (drop 1 r)
          else if take 1 r = '']'' then Some (acc @ [v], drop 1 r)
          else None)"
| "parse_members 0 acc cs = None"
| "parse_members (Suc n) acc cs =
     (if take 1 cs = [dquote]
      then (case parse_chars [] (drop 1 cs) of
              None \<Rightarrow> None
            | Some (k, r) \<Rightarrow>
                if take 1 r = '':''
                then (case parse_value n (drop 1 r) of
                        None \<Rightarrow> None
                      | Some (v, r') \<Rightarrow>
                          if take 1 r' = '','' then parse_members n (acc @ [(k, v)]) (drop 1 r')
                          else if take 1 r' = ''}'' then Some (acc @ [(k, v)], drop 1 r')
                          else None)
                else None)
      else None)"

definition SyntaxError :: js_error where
  "SyntaxError = \<lparr>message = ''Unexpected token in JSON'', request = False, response = None\<rparr>"

definition json_parse :: "string \<Rightarrow> js_error + jsval" where
  "json_parse s =
     (case parse_value (Suc (length s)) s of
        Some (v, []) \<Rightarrow> Inr v
      | _ \<Rightarrow> Inl SyntaxError)"

definition reading_message :: "jsval \<Rightarrow> string \<Rightarrow> string" where
  "reading_message v k =
     ''Cannot read properties of '' @ (if v = JNull then ''null'' else ''undefined'')
       @ '' (reading '' @ [CHR 0x27] @ k @ [CHR 0x27] @ '')''"

definition sample_engine :: js_platform where
  "sample_engine =
     \<lparr>JSON_parse = json_parse, JSON_stringify = json_text,
      Number_toString = integer_text, TypeError_message = reading_message,
      Storage_accepts = (\<lambda>contents k s. True),
      QuotaExceeded_message = ''The quota has been exceeded.''\<rparr>"

definition full_storage_engine :: js_platform where
  "full_storage_engine = sample_engine\<lparr>Storage_accepts := (\<lambda>contents k s. k \<noteq> ''user'')\<rparr>"

section \<open>Properties\<close>

lemma strict_eq_JStr: "strict_eq a (JStr s) = (a = JStr s)"
  by (cases a) auto

lemma sample_engine_accepts: "Storage_accepts sample_engine contents k s"
  by (simp add: sample_engine_def)

lemma login_flow:
  "login P net a c = auth_flow P ''Login failed'' (fst a) (authAPI_login P net (snd a) c)"
  by (cases a) (simp add: login_def auth_flow_def)

lemma register_flow:
  "register P net a c =
     auth_flow P ''Registration failed'' (fst a) (authAPI_register P net (snd a) c)"
  by (cases a) (simp add: register_def auth_flow_def)

lemma truthy_present: "truthy v \<Longrightarrow> present v"
  by (cases v) (simp_all add: present_def)

lemma js_prop_falsy: "\<not> truthy v \<Longrightarrow> js_prop v k = JUndefined"
  by (cases v) simp_all

lemma getItem_truthy:
  "truthy (getItem b k) = (\<exists>s. localStorage b k = Some s \<and> s \<noteq> [])"
  by (simp add: getItem_def split: option.splits)

lemma restore_parsed:
  assumes "localStorage b ''authToken'' = Some t" and "t \<noteq> []"
    and "localStorage b ''user'' = Some u" and "u \<noteq> []"
    and "JSON_parse P u = Inr v"
  shows "restore P (state, b) = (authReducer state (LOAD_USER_FROM_STORAGE v (JStr t)), b)"
  using assms by (simp add: restore_def getItem_def)

lemma restore_malformed:
  assumes "localStorage b ''authToken'' = Some t" and "t \<noteq> []"
    and "localStorage b ''user'' = Some u" and "u \<noteq> []"
    and "JSON_parse P u = Inl e"
  shows "restore P (state, b) =
           (authReducer state (LOAD_USER_FROM_STORAGE JNull JNull),
            removeItem (removeItem b ''authToken'') ''user'')"
  using assms by (simp add: restore_def getItem_def)

lemma restore_missing:
  assumes "\<not> (truthy (getItem b ''authToken'') \<and> truthy (getItem b ''user''))"
  shows "restore P (state, b) = (authReducer state (LOAD_USER_FROM_STORAGE JNull JNull), b)"
  using assms by (auto simp add: restore_def Let_def)

subsection \<open>handleApiError\<close>

text \<open>
  C4, as the specification states it: for a failure with no response the normalised error
  is exactly \<^verbatim>\<open>{message: "network error", status: 0}\<close>. The message that the code
  returns is another text.
\<close>

theorem handleApiError_message_counterexample:
  "handleApiError \<lparr>message = ''Network Error'', request = True, response = None\<rparr> \<noteq>
     JObj [(''message'', JStr ''network error''), (''status'', JNum 0)]"
  by (simp add: handleApiError_def)

text \<open>
  C4, amended. For an error without a response, \<^verbatim>\<open>handleApiError\<close> returns exactly
  \<^verbatim>\<open>{message: "Network error. Please check your connection.", status: 0}\<close> when the
  request was sent (\<^verbatim>\<open>error.request\<close> is set), and
  \<^verbatim>\<open>{message: error.message || "An unexpected error occurred", status: -1}\<close> when it was
  not; neither object has a \<^verbatim>\<open>details\<close> key.
\<close>

theorem handleApiError_no_response:
  "response err = None \<Longrightarrow>
   handleApiError err =
     (if request err
      then JObj [(''message'', JStr ''Network error. Please check your connection.''),
                 (''status'', JNum 0)]
      else JObj [(''message'', if message err \<noteq> [] then JStr (message err)
                               else JStr ''An unexpected error occurred''),
                 (''status'', JNum (- 1))])"
  by (simp add: handleApiError_def js_or_def)

theorem handleApiError_no_response_witness:
  "response \<lparr>message = ''timeout of 10000ms exceeded'', request = True, response = None\<rparr> = None
   \<and> handleApiError \<lparr>message = ''timeout of 10000ms exceeded'', request = True, response = None\<rparr> =
       JObj [(''message'', JStr ''Network error. Please check your connection.''),
             (''status'', JNum 0)]"
  using handleApiError_no_response
    [of "\<lparr>message = ''timeout of 10000ms exceeded'', request = True, response = None\<rparr>"]
  by simp

subsection \<open>The request interceptor\<close>

text \<open>
  C8. A request that comes without an \<^verbatim>\<open>Authorization\<close> header (every request the
  client builds: see \<open>api_config\<close>) leaves the interceptor with the header
  \<^verbatim>\<open>Authorization: Bearer <token>\<close> when \<^verbatim>\<open>localStorage\<close> holds a non-empty
  \<^verbatim>\<open>authToken\<close>, and without one when the key is absent or empty. Nothing else of the
  request changes, and the request so augmented is the one the network receives.
\<close>

theorem request_interceptor_bearer:
  assumes "req_headers config ''Authorization'' = None"
  shows "req_headers (request_interceptor P b config) ''Authorization'' =
           (case localStorage b ''authToken'' of
              None \<Rightarrow> None
            | Some t \<Rightarrow> if t = [] then None else Some (''Bearer '' @ t))
         \<and> (\<forall>k. k \<noteq> ''Authorization'' \<longrightarrow>
               req_headers (request_interceptor P b config) k = req_headers config k)
         \<and> req_method (request_interceptor P b config) = req_method config
         \<and> req_url (request_interceptor P b config) = req_url config
         \<and> req_data (request_interceptor P b config) = req_data config
         \<and> req_params (request_interceptor P b config) = req_params config
         \<and> api_request P net b config =
             (case net (request_interceptor P b config) of
                Inr r \<Rightarrow> (b, Inr r)
              | Inl err \<Rightarrow> response_rejected b err)"
  using assms
  by (simp add: request_interceptor_def getItem_def api_request_def response_fulfilled_def
      split: option.splits sum.splits)

theorem request_interceptor_bearer_witness:
  "req_headers (api_config ''get'' ''/patients'' JUndefined (JObj [(''limit'', JNum 50)]))
       ''Authorization'' = None
   \<and> req_headers
        (request_interceptor sample_engine
           \<lparr>localStorage = [''authToken'' \<mapsto> ''abc''], location_href = ''/patients'', console = []\<rparr>
           (api_config ''get'' ''/patients'' JUndefined (JObj [(''limit'', JNum 50)])))
        ''Authorization'' = Some ''Bearer abc''
   \<and> req_headers
        (request_interceptor sample_engine
           \<lparr>localStorage = Map.empty, location_href = ''/login'', console = []\<rparr>
           (api_config ''get'' ''/patients'' JUndefined (JObj [(''limit'', JNum 50)])))
        ''Authorization'' = None"
proof -
  let ?c = "api_config ''get'' ''/patients'' JUndefined (JObj [(''limit'', JNum 50)])"
  have h: "req_headers ?c ''Authorization'' = None"
    by (simp add: api_config_def)
  show ?thesis
    using h
      request_interceptor_bearer [OF h, of sample_engine
        "\<lparr>localStorage = [''authToken'' \<mapsto> ''abc''], location_href = ''/patients'', console = []\<rparr>"]
      request_interceptor_bearer [OF h, of sample_engine
        "\<lparr>localStorage = Map.empty, location_href = ''/login'', console = []\<rparr>"]
    by simp
qed

subsection \<open>The response interceptor\<close>


lemma response_rejected_other:
  assumes "map_option status (response err) \<noteq> Some 401"
  shows "response_rejected b err =
          ((if response err = None
            then console_error b [JStr ''Network error:'', JStr (message err)] else b), Inl err)"
  using assms by (cases "response err") (auto simp add: response_rejected_def)





subsection \<open>restore\<close>

text \<open>
  C3. \<^verbatim>\<open>restore()\<close> reads the stored credential. When both fields are there and the
  user parses, the session is authenticated with the parsed user (\<open>restore_parsed\<close>);
  when the user does not parse, both keys are removed and the session is Anonymous
  (\<open>restore_malformed\<close>). The claim has both keys removed as well when a field is
  missing, and for every stored user that is not JSON. There the code differs: with
  \<^verbatim>\<open>authToken\<close> stored and \<^verbatim>\<open>user\<close> missing, or stored as the empty string (which is
  not JSON), the session becomes Anonymous and storage is left as it is, so the token
  stays where the request interceptor goes on reading it.
\<close>

theorem restore_partial_credential:
  "restore P
     (initialState,
      \<lparr>localStorage = [''authToken'' \<mapsto> ''abc''], location_href = ''/dashboard'', console = []\<rparr>) =
     (\<lparr>user = JNull, token = JNull, isAuthenticated = False, isLoading = False, error = JNull\<rparr>,
      \<lparr>localStorage = [''authToken'' \<mapsto> ''abc''], location_href = ''/dashboard'', console = []\<rparr>)
   \<and> restore P
     (initialState,
      \<lparr>localStorage = [''authToken'' \<mapsto> ''abc'', ''user'' \<mapsto> []], location_href = ''/dashboard'',
       console = []\<rparr>) =
     (\<lparr>user = JNull, token = JNull, isAuthenticated = False, isLoading = False, error = JNull\<rparr>,
      \<lparr>localStorage = [''authToken'' \<mapsto> ''abc'', ''user'' \<mapsto> []], location_href = ''/dashboard'',
       console = []\<rparr>)"
  by (simp add: restore_missing getItem_def initialState_def)

subsection \<open>login and register\<close>

lemma store_credentials_Inl:
  assumes "store_credentials P b resp = (b', Inl e)"
  shows "response e = None
       \<and> localStorage b' =
           (if user_write_refused P b resp
            then (localStorage b)(''authToken'' \<mapsto> to_string P (js_prop resp ''token''))
            else localStorage b)"
  using assms
  by (auto simp add: store_credentials_def js_member_def setItem_def write_item_def
      user_write_refused_def split: if_splits sum.splits)

lemma api_request_Inl:
  assumes "api_request P net b config = (b', Inl err)"
  shows "(b', Inl err) = response_rejected b err"
  using assms
  by (auto simp add: api_request_def response_rejected_def Let_def split: sum.splits)

lemma api_request_Inr:
  assumes "api_request P net b config = (b', Inr r)"
  shows "b' = b \<and> net (request_interceptor P b config) = Inr r"
  using assms
  by (auto simp add: api_request_def response_rejected_def response_fulfilled_def Let_def
      split: sum.splits)

lemma api_request_rejected:
  assumes "net (request_interceptor P b config) = Inl err"
  shows "snd (api_request P net b config) = Inl err"
  using assms by (simp add: api_request_def response_rejected_def Let_def)

lemma authAPI_login_Inl:
  assumes "authAPI_login P net b c = (b', Inl err)"
  shows "(b', Inl err) = response_rejected b err"
  using assms api_request_Inl [of P net b _ b' err]
  by (auto simp add: authAPI_login_def split: prod.splits sum.splits)

lemma authAPI_register_Inl:
  assumes "authAPI_register P net b c = (b', Inl err)"
  shows "(b', Inl err) = response_rejected b err"
  using assms api_request_Inl [of P net b _ b' err]
  by (auto simp add: authAPI_register_def split: prod.splits sum.splits)

lemma authAPI_login_Inr:
  assumes "authAPI_login P net b c = (b', Inr d)"
  shows "b' = b"
  using assms api_request_Inr [of P net b _ b']
  by (auto simp add: authAPI_login_def split: prod.splits sum.splits)

lemma authAPI_register_Inr:
  assumes "authAPI_register P net b c = (b', Inr d)"
  shows "b' = b"
  using assms api_request_Inr [of P net b _ b']
  by (auto simp add: authAPI_register_def split: prod.splits sum.splits)

lemma errorMessage_cases:
  "errorMessage err fallback =
     (case response err of
        None \<Rightarrow> JStr fallback
      | Some r \<Rightarrow>
          if truthy (js_prop_opt (data r) ''error'') then js_prop_opt (data r) ''error''
          else JStr fallback)"
  by (simp add: errorMessage_def js_or_def split: option.splits)

lemma auth_flow_Inl:
  assumes "snd (auth_flow P fallback state called) = Inl err"
  shows "fst (fst (auth_flow P fallback state called)) =
           \<lparr>user = JNull, token = JNull, isAuthenticated = False, isLoading = False,
            error = errorMessage err fallback\<rparr>"
  using assms
  by (cases state) (auto simp add: auth_flow_def split: prod.splits sum.splits)

lemma auth_flow_rejected:
  assumes "snd called = Inl err"
  shows "snd (auth_flow P fallback state called) = Inl err"
  using assms
  by (cases called) (auto simp add: auth_flow_def)

lemma login_failed_session:
  assumes "snd (login P net a c) = Inl err"
  shows "fst (fst (login P net a c)) =
        \<lparr>user = JNull, token = JNull, isAuthenticated = False, isLoading = False,
         error = errorMessage err ''Login failed''\<rparr>"
  using assms auth_flow_Inl [of P "''Login failed''" "fst a" _ err]
  by (simp add: login_flow)

lemma register_failed_session:
  assumes "snd (register P net a c) = Inl err"
  shows "fst (fst (register P net a c)) =
        \<lparr>user = JNull, token = JNull, isAuthenticated = False, isLoading = False,
         error = errorMessage err ''Registration failed''\<rparr>"
  using assms auth_flow_Inl [of P "''Registration failed''" "fst a" _ err]
  by (simp add: register_flow)

lemma login_rejected:
  assumes "net (request_interceptor P (snd a) (api_config ''post'' ''/auth/login'' c JUndefined)) = Inl err"
  shows "snd (login P net a c) = Inl err"
proof -
  have "snd (authAPI_login P net (snd a) c) = Inl err"
    using api_request_rejected
        [of net P "snd a" "api_config ''post'' ''/auth/login'' c JUndefined" err] assms
    by (auto simp add: authAPI_login_def split: prod.splits sum.splits)
  then show ?thesis
    by (simp add: login_flow auth_flow_rejected)
qed

lemma register_rejected:
  assumes "net (request_interceptor P (snd a) (api_config ''post'' ''/auth/register'' c JUndefined)) = Inl err"
  shows "snd (register P net a c) = Inl err"
proof -
  have "snd (authAPI_register P net (snd a) c) = Inl err"
    using api_request_rejected
        [of net P "snd a" "api_config ''post'' ''/auth/register'' c JUndefined" err] assms
    by (auto simp add: authAPI_register_def split: prod.splits sum.splits)
  then show ?thesis
    by (simp add: register_flow auth_flow_rejected)
qed

text \<open>
  C5. Whenever \<^verbatim>\<open>login\<close> or \<^verbatim>\<open>register\<close> fails with an error, the session is left
  with no user, no token, not authenticated and not loading, and its error field holds
  \<^verbatim>\<open>error.response.data.error\<close> of that error when there is a response whose body has a
  truthy \<^verbatim>\<open>error\<close>, and the fallback (\<^verbatim>\<open>"Login failed"\<close>, \<^verbatim>\<open>"Registration failed"\<close>)
  otherwise. A rejection of the request is the error that the operation throws to its
  caller.
\<close>

theorem auth_call_failure:
  "(snd (login P net a c) = Inl err \<longrightarrow>
      fst (fst (login P net a c)) =
        \<lparr>user = JNull, token = JNull, isAuthenticated = False, isLoading = False,
         error = (case response err of
                    None \<Rightarrow> JStr ''Login failed''
                  | Some r \<Rightarrow>
                      if truthy (js_prop_opt (data r) ''error'') then js_prop_opt (data r) ''error''
                      else JStr ''Login failed'')\<rparr>)
   \<and> (net (request_interceptor P (snd a) (api_config ''post'' ''/auth/login'' c JUndefined)) = Inl err
        \<longrightarrow> snd (login P net a c) = Inl err)
   \<and> (snd (register P net a c) = Inl err \<longrightarrow>
      fst (fst (register P net a c)) =
        \<lparr>user = JNull, token = JNull, isAuthenticated = False, isLoading = False,
         error = (case response err of
                    None \<Rightarrow> JStr ''Registration failed''
                  | Some r \<Rightarrow>
                      if truthy (js_prop_opt (data r) ''error'') then js_prop_opt (data r) ''error''
                      else JStr ''Registration failed'')\<rparr>)
   \<and> (net (request_interceptor P (snd a) (api_config ''post'' ''/auth/register'' c JUndefined)) = Inl err
        \<longrightarrow> snd (register P net a c) = Inl err)"
  using login_failed_session [of P net a c err] register_failed_session [of P net a c err]
    login_rejected [of net P a c err] register_rejected [of net P a c err]
  by (simp add: errorMessage_cases)

theorem auth_call_failure_witness:
  "snd (login sample_engine
         (\<lambda>config. Inl \<lparr>message = ''Request failed with status code 400'', request = True,
            response = Some \<lparr>status = 400, data = JObj [(''error'', JStr ''Invalid email or password'')]\<rparr>\<rparr>)
         (initialState, \<lparr>localStorage = Map.empty, location_href = ''/login'', console = []\<rparr>)
         (JObj [(''email'', JStr ''admin@clinic.com''), (''password'', JStr ''wrong'')])) =
     Inl \<lparr>message = ''Request failed with status code 400'', request = True,
          response = Some \<lparr>status = 400, data = JObj [(''error'', JStr ''Invalid email or password'')]\<rparr>\<rparr>
   \<and> fst (fst (login sample_engine
         (\<lambda>config. Inl \<lparr>message = ''Request failed with status code 400'', request = True,
            response = Some \<lparr>status = 400, data = JObj [(''error'', JStr ''Invalid email or password'')]\<rparr>\<rparr>)
         (initialState, \<lparr>localStorage = Map.empty, location_href = ''/login'', console = []\<rparr>)
         (JObj [(''email'', JStr ''admin@clinic.com''), (''password'', JStr ''wrong'')]))) =
     \<lparr>user = JNull, token = JNull, isAuthenticated = False, isLoading = False,
      error = JStr ''Invalid email or password''\<rparr>
   \<and> fst (fst (register sample_engine
         (\<lambda>config. Inl \<lparr>message = ''Network Error'', request = True, response = None\<rparr>)
         (initialState, \<lparr>localStorage = Map.empty, location_href = ''/register'', console = []\<rparr>)
         (JObj [(''email'', JStr ''nurse@clinic.com'')]))) =
     \<lparr>user = JNull, token = JNull, isAuthenticated = False, isLoading = False,
      error = JStr ''Registration failed''\<rparr>"
proof -
  let ?e = "\<lparr>message = ''Request failed with status code 400'', request = True,
            response = Some \<lparr>status = 400, data = JObj [(''error'', JStr ''Invalid email or password'')]\<rparr>\<rparr>"
  let ?n = "\<lparr>message = ''Network Error'', request = True, response = None\<rparr>"
  let ?a = "(initialState, \<lparr>localStorage = Map.empty, location_href = ''/login'', console = []\<rparr>)"
  let ?a' = "(initialState, \<lparr>localStorage = Map.empty, location_href = ''/register'', console = []\<rparr>)"
  let ?c = "JObj [(''email'', JStr ''admin@clinic.com''), (''password'', JStr ''wrong'')]"
  let ?c' = "JObj [(''email'', JStr ''nurse@clinic.com'')]"
  show ?thesis
    using auth_call_failure [of sample_engine "\<lambda>config. Inl ?e" ?a ?c ?e]
      auth_call_failure [of sample_engine "\<lambda>config. Inl ?n" ?a' ?c' ?n]
    by (simp add: js_prop_opt_def)
qed

subsection \<open>Storage after a failed login or register\<close>

lemma restore_storage_only:
  assumes "localStorage b = localStorage b'"
  shows "fst (restore P (state, b)) = fst (restore P (state, b'))"
  using assms
  by (simp add: restore_def getItem_def Let_def split: sum.splits)

lemma response_rejected_storage:
  "localStorage (fst (response_rejected b e)) =
     (if map_option status (response e) = Some 401
      then (localStorage b)(''authToken'' := None, ''user'' := None)
      else localStorage b)"
  by (cases "response e")
     (auto simp add: response_rejected_def Let_def removeItem_def console_error_def)

lemma authAPI_login_cases:
  "authAPI_login P net b c =
     (case net (request_interceptor P b (api_config ''post'' ''/auth/login'' c JUndefined)) of
        Inl e \<Rightarrow> (fst (response_rejected b e), Inl e)
      | Inr r \<Rightarrow> (b, Inr (data r)))"
  by (simp add: authAPI_login_def api_request_def response_rejected_def response_fulfilled_def
      Let_def split: sum.splits)

lemma authAPI_register_cases:
  "authAPI_register P net b c =
     (case net (request_interceptor P b (api_config ''post'' ''/auth/register'' c JUndefined)) of
        Inl e \<Rightarrow> (fst (response_rejected b e), Inl e)
      | Inr r \<Rightarrow> (b, Inr (data r)))"
  by (simp add: authAPI_register_def api_request_def response_rejected_def
      response_fulfilled_def Let_def split: sum.splits)

lemma auth_flow_failed_storage:
  assumes "snd (auth_flow P fallback state called) = Inl err"
  shows "localStorage (snd (fst (auth_flow P fallback state called))) =
           (case snd called of
              Inl e \<Rightarrow> localStorage (fst called)
            | Inr d \<Rightarrow>
                if user_write_refused P (fst called) d
                then (localStorage (fst called))(''authToken'' \<mapsto> to_string P (js_prop d ''token''))
                else localStorage (fst called))"
proof (cases called)
  case (Pair b1 res)
  show ?thesis
  proof (cases res)
    case (Inl e)
    with Pair show ?thesis
      by (simp add: auth_flow_def)
  next
    case (Inr d)
    obtain b2 res2 where sc: "store_credentials P b1 d = (b2, res2)"
      by (cases "store_credentials P b1 d")
    show ?thesis
    proof (cases res2)
      case (Inl e)
      with sc store_credentials_Inl [of P b1 d b2 e] Pair \<open>res = Inr d\<close> show ?thesis
        by (simp add: auth_flow_def)
    next
      case (Inr ut)
      with Pair \<open>res = Inr d\<close> sc assms show ?thesis
        by (cases ut) (simp add: auth_flow_def)
    qed
  qed
qed

lemma auth_flow_failed_origin:
  assumes "snd (auth_flow P fallback state called) = Inl err"
  shows "snd called = Inl err \<or> response err = None"
proof (cases called)
  case (Pair b1 res)
  show ?thesis
  proof (cases res)
    case (Inl e)
    with Pair assms show ?thesis
      by (simp add: auth_flow_def)
  next
    case (Inr d)
    obtain b2 res2 where sc: "store_credentials P b1 d = (b2, res2)"
      by (cases "store_credentials P b1 d")
    show ?thesis
    proof (cases res2)
      case (Inl e)
      with sc store_credentials_Inl [of P b1 d b2 e] Pair \<open>res = Inr d\<close> assms show ?thesis
        by (simp add: auth_flow_def)
    next
      case (Inr ut)
      with Pair \<open>res = Inr d\<close> sc assms show ?thesis
        by (cases ut) (simp add: auth_flow_def)
    qed
  qed
qed

lemma login_failed_storage:
  assumes "snd (login P net a c) = Inl err"
  shows "localStorage (snd (fst (login P net a c))) =
           (case net (request_interceptor P (snd a) (api_config ''post'' ''/auth/login'' c JUndefined)) of
              Inl e \<Rightarrow>
                if map_option status (response e) = Some 401
                then (localStorage (snd a))(''authToken'' := None, ''user'' := None)
                else localStorage (snd a)
            | Inr r \<Rightarrow>
                if user_write_refused P (snd a) (data r)
                then (localStorage (snd a))(''authToken'' \<mapsto> to_string P (js_prop (data r) ''token''))
                else localStorage (snd a))"
proof -
  from assms have "snd (auth_flow P ''Login failed'' (fst a) (authAPI_login P net (snd a) c)) = Inl err"
    by (simp add: login_flow)
  from auth_flow_failed_storage [OF this] show ?thesis
    by (simp add: login_flow authAPI_login_cases response_rejected_storage split: sum.splits)
qed

lemma register_failed_storage:
  assumes "snd (register P net a c) = Inl err"
  shows "localStorage (snd (fst (register P net a c))) =
           (case net (request_interceptor P (snd a) (api_config ''post'' ''/auth/register'' c JUndefined)) of
              Inl e \<Rightarrow>
                if map_option status (response e) = Some 401
                then (localStorage (snd a))(''authToken'' := None, ''user'' := None)
                else localStorage (snd a)
            | Inr r \<Rightarrow>
                if user_write_refused P (snd a) (data r)
                then (localStorage (snd a))(''authToken'' \<mapsto> to_string P (js_prop (data r) ''token''))
                else localStorage (snd a))"
proof -
  from assms
  have "snd (auth_flow P ''Registration failed'' (fst a) (authAPI_register P net (snd a) c)) = Inl err"
    by (simp add: register_flow)
  from auth_flow_failed_storage [OF this] show ?thesis
    by (simp add: register_flow authAPI_register_cases response_rejected_storage split: sum.splits)
qed

lemma login_failed_origin:
  assumes "snd (login P net a c) = Inl err"
  shows "net (request_interceptor P (snd a) (api_config ''post'' ''/auth/login'' c JUndefined)) = Inl err
         \<or> response err = None"
proof -
  from assms have "snd (auth_flow P ''Login failed'' (fst a) (authAPI_login P net (snd a) c)) = Inl err"
    by (simp add: login_flow)
  from auth_flow_failed_origin [OF this] show ?thesis
    by (auto simp add: authAPI_login_cases split: sum.splits)
qed

lemma register_failed_origin:
  assumes "snd (register P net a c) = Inl err"
  shows "net (request_interceptor P (snd a) (api_config ''post'' ''/auth/register'' c JUndefined)) = Inl err
         \<or> response err = None"
proof -
  from assms
  have "snd (auth_flow P ''Registration failed'' (fst a) (authAPI_register P net (snd a) c)) = Inl err"
    by (simp add: register_flow)
  from auth_flow_failed_origin [OF this] show ?thesis
    by (auto simp add: authAPI_register_cases split: sum.splits)
qed

lemma mount_storage_only:
  assumes "localStorage b' = localStorage b"
  shows "fst (AuthProvider_mount P b') = fst (AuthProvider_mount P b)"
  using restore_storage_only [OF assms] by (simp add: AuthProvider_mount_def)

lemma login_failed_summary:
  assumes failed: "snd (login P net a c) = Inl err"
  shows "localStorage (snd (fst (login P net a c))) =
        (case net (request_interceptor P (snd a) (api_config ''post'' ''/auth/login'' c JUndefined)) of
           Inl e \<Rightarrow>
             if map_option status (response e) = Some 401
             then (localStorage (snd a))(''authToken'' := None, ''user'' := None)
             else localStorage (snd a)
         | Inr r \<Rightarrow>
             if user_write_refused P (snd a) (data r)
             then (localStorage (snd a))(''authToken'' \<mapsto> to_string P (js_prop (data r) ''token''))
             else localStorage (snd a))
      \<and> (map_option status (response err) = Some 401 \<longrightarrow>
           localStorage (snd (fst (login P net a c))) =
             (localStorage (snd a))(''authToken'' := None, ''user'' := None))
      \<and> \<not> isAuthenticated (fst (fst (login P net a c)))
      \<and> (map_option status (response err) \<noteq> Some 401
           \<and> (\<forall>r. net (request_interceptor P (snd a) (api_config ''post'' ''/auth/login'' c JUndefined)) = Inr r
                  \<longrightarrow> \<not> user_write_refused P (snd a) (data r)) \<longrightarrow>
           localStorage (snd (fst (login P net a c))) = localStorage (snd a)
           \<and> fst (AuthProvider_mount P (snd (fst (login P net a c)))) =
               fst (AuthProvider_mount P (snd a)))"
proof -
  let ?answer = "net (request_interceptor P (snd a) (api_config ''post'' ''/auth/login'' c JUndefined))"
  let ?after = "localStorage (snd (fst (login P net a c)))"
  have storage: "?after =
        (case ?answer of
           Inl e \<Rightarrow>
             if map_option status (response e) = Some 401
             then (localStorage (snd a))(''authToken'' := None, ''user'' := None)
             else localStorage (snd a)
         | Inr r \<Rightarrow>
             if user_write_refused P (snd a) (data r)
             then (localStorage (snd a))(''authToken'' \<mapsto> to_string P (js_prop (data r) ''token''))
             else localStorage (snd a))"
    using login_failed_storage [OF failed] .
  have unauthorized: "?after = (localStorage (snd a))(''authToken'' := None, ''user'' := None)"
    if "map_option status (response err) = Some 401"
  proof -
    from that login_failed_origin [OF failed] have "?answer = Inl err"
      by auto
    with storage that show ?thesis
      by simp
  qed
  have session: "\<not> isAuthenticated (fst (fst (login P net a c)))"
    using login_failed_session [OF failed] by simp
  have kept: "?after = localStorage (snd a)"
    if "map_option status (response err) \<noteq> Some 401"
      and "\<forall>r. ?answer = Inr r \<longrightarrow> \<not> user_write_refused P (snd a) (data r)"
  proof (cases ?answer)
    case (Inl e)
    from login_rejected [of net P a c e] Inl failed have "e = err"
      by simp
    with Inl storage that(1) show ?thesis
      by (auto split: if_splits)
  next
    case (Inr r)
    with storage that(2) show ?thesis
      by simp
  qed
  have mount: "fst (AuthProvider_mount P (snd (fst (login P net a c)))) =
               fst (AuthProvider_mount P (snd a))"
    if "map_option status (response err) \<noteq> Some 401"
      and "\<forall>r. ?answer = Inr r \<longrightarrow> \<not> user_write_refused P (snd a) (data r)"
    using mount_storage_only [OF kept [OF that]] .
  show ?thesis
    using storage unauthorized session kept mount by blast
qed

lemma register_failed_summary:
  assumes failed: "snd (register P net a c) = Inl err"
  shows "localStorage (snd (fst (register P net a c))) =
        (case net (request_interceptor P (snd a) (api_config ''post'' ''/auth/register'' c JUndefined)) of
           Inl e \<Rightarrow>
             if map_option status (response e) = Some 401
             then (localStorage (snd a))(''authToken'' := None, ''user'' := None)
             else localStorage (snd a)
         | Inr r \<Rightarrow>
             if user_write_refused P (snd a) (data r)
             then (localStorage (snd a))(''authToken'' \<mapsto> to_string P (js_prop (data r) ''token''))
             else localStorage (snd a))
      \<and> (map_option status (response err) = Some 401 \<longrightarrow>
           localStorage (snd (fst (register P net a c))) =
             (localStorage (snd a))(''authToken'' := None, ''user'' := None))
      \<and> \<not> isAuthenticated (fst (fst (register P net a c)))
      \<and> (map_option status (response err) \<noteq> Some 401
           \<and> (\<forall>r. net (request_interceptor P (snd a) (api_config ''post'' ''/auth/register'' c JUndefined)) = Inr r
                  \<longrightarrow> \<not> user_write_refused P (snd a) (data r)) \<longrightarrow>
           localStorage (snd (fst (register P net a c))) = localStorage (snd a)
           \<and> fst (AuthProvider_mount P (snd (fst (register P net a c)))) =
               fst (AuthProvider_mount P (snd a)))"
proof -
  let ?answer = "net (request_interceptor P (snd a) (api_config ''post'' ''/auth/register'' c JUndefined))"
  let ?after = "localStorage (snd (fst (register P net a c)))"
  have storage: "?after =
        (case ?answer of
           Inl e \<Rightarrow>
             if map_option status (response e) = Some 401
             then (localStorage (snd a))(''authToken'' := None, ''user'' := None)
             else localStorage (snd a)
         | Inr r \<Rightarrow>
             if user_write_refused P (snd a) (data r)
             then (localStorage (snd a))(''authToken'' \<mapsto> to_string P (js_prop (data r) ''token''))
             else localStorage (snd a))"
    using register_failed_storage [OF failed] .
  have unauthorized: "?after = (localStorage (snd a))(''authToken'' := None, ''user'' := None)"
    if "map_option status (response err) = Some 401"
  proof -
    from that register_failed_origin [OF failed] have "?answer = Inl err"
      by auto
    with storage that show ?thesis
      by simp
  qed
  have session: "\<not> isAuthenticated (fst (fst (register P net a c)))"
    using register_failed_session [OF failed] by simp
  have kept: "?after = localStorage (snd a)"
    if "map_option status (response err) \<noteq> Some 401"
      and "\<forall>r. ?answer = Inr r \<longrightarrow> \<not> user_write_refused P (snd a) (data r)"
  proof (cases ?answer)
    case (Inl e)
    from register_rejected [of net P a c e] Inl failed have "e = err"
      by simp
    with Inl storage that(1) show ?thesis
      by (auto split: if_splits)
  next
    case (Inr r)
    with storage that(2) show ?thesis
      by simp
  qed
  have mount: "fst (AuthProvider_mount P (snd (fst (register P net a c)))) =
               fst (AuthProvider_mount P (snd a))"
    if "map_option status (response err) \<noteq> Some 401"
      and "\<forall>r. ?answer = Inr r \<longrightarrow> \<not> user_write_refused P (snd a) (data r)"
    using mount_storage_only [OF kept [OF that]] .
  show ?thesis
    using storage unauthorized session kept mount by blast
qed

text \<open>
  C7, as stated: every failed \<^verbatim>\<open>login\<close> leaves \<^verbatim>\<open>authToken\<close> and \<^verbatim>\<open>user\<close> in storage
  as they were. A login that the server refuses with status 401 passes the response
  interceptor first: the credential that an earlier successful login stored is gone
  afterwards.
\<close>

theorem failed_login_401_counterexample:
  "localStorage (snd (run sample_engine
       (initialState, \<lparr>localStorage = Map.empty, location_href = ''/login'', console = []\<rparr>)
       [Login (JObj [(''email'', JStr ''admin@clinic.com''), (''password'', JStr ''admin123'')])
          (Inr \<lparr>status = 200,
                data = JObj [(''user'', JObj [(''id'', JNum 1), (''role'', JStr ''admin'')]),
                             (''token'', JStr ''abc'')]\<rparr>)]))
     ''authToken'' = Some ''abc''
   \<and> localStorage (snd (run sample_engine
       (initialState, \<lparr>localStorage = Map.empty, location_href = ''/login'', console = []\<rparr>)
       [Login (JObj [(''email'', JStr ''admin@clinic.com''), (''password'', JStr ''admin123'')])
          (Inr \<lparr>status = 200,
                data = JObj [(''user'', JObj [(''id'', JNum 1), (''role'', JStr ''admin'')]),
                             (''token'', JStr ''abc'')]\<rparr>),
        Login (JObj [(''email'', JStr ''admin@clinic.com''), (''password'', JStr ''wrong'')])
          (Inl \<lparr>message = ''Request failed with status code 401'', request = True,
                response = Some \<lparr>status = 401,
                                  data = JObj [(''error'', JStr ''Invalid credentials'')]\<rparr>\<rparr>)]))
     ''authToken'' = None"
  by (simp add: run_def login_flow auth_flow_def authAPI_login_def api_request_def
      response_rejected_def response_fulfilled_def store_credentials_def js_member_def
      setItem_def write_item_def sample_engine_accepts removeItem_def)

text \<open>
  C7, amended. On every failed \<^verbatim>\<open>login\<close> or \<^verbatim>\<open>register\<close>: when the request was
  rejected with a response of status 401, \<^verbatim>\<open>authToken\<close> and \<^verbatim>\<open>user\<close> are removed from
  \<^verbatim>\<open>localStorage\<close> and every other key is kept; when the server answered with a body and
  the storage accepted the write of \<^verbatim>\<open>authToken\<close> but refused the write of \<^verbatim>\<open>user\<close>,
  \<^verbatim>\<open>authToken\<close> holds the text of the new token and nothing else has changed; in every
  other failure (a rejection that is not a 401, a nullish body, a refused write of
  \<^verbatim>\<open>authToken\<close>) \<^verbatim>\<open>localStorage\<close> is exactly as it was. In that last case a credential
  stored by an earlier successful login survives the failed attempt although the session
  in memory is no longer authenticated, and a page load afterwards restores the session
  that a page load before the call would have restored.
\<close>

theorem failed_auth_call_storage:
  "(snd (login P net a c) = Inl err \<longrightarrow>
      localStorage (snd (fst (login P net a c))) =
        (case net (request_interceptor P (snd a) (api_config ''post'' ''/auth/login'' c JUndefined)) of
           Inl e \<Rightarrow>
             if map_option status (response e) = Some 401
             then (localStorage (snd a))(''authToken'' := None, ''user'' := None)
             else localStorage (snd a)
         | Inr r \<Rightarrow>
             if user_write_refused P (snd a) (data r)
             then (localStorage (snd a))(''authToken'' \<mapsto> to_string P (js_prop (data r) ''token''))
             else localStorage (snd a))
      \<and> (map_option status (response err) = Some 401 \<longrightarrow>
           localStorage (snd (fst (login P net a c))) =
             (localStorage (snd a))(''authToken'' := None, ''user'' := None))
      \<and> \<not> isAuthenticated (fst (fst (login P net a c)))
      \<and> (map_option status (response err) \<noteq> Some 401
           \<and> (\<forall>r. net (request_interceptor P (snd a) (api_config ''post'' ''/auth/login'' c JUndefined)) = Inr r
                  \<longrightarrow> \<not> user_write_refused P (snd a) (data r)) \<longrightarrow>
           localStorage (snd (fst (login P net a c))) = localStorage (snd a)
           \<and> fst (AuthProvider_mount P (snd (fst (login P net a c)))) =
               fst (AuthProvider_mount P (snd a))))
   \<and> (snd (register P net a c) = Inl err \<longrightarrow>
      localStorage (snd (fst (register P net a c))) =
        (case net (request_interceptor P (snd a) (api_config ''post'' ''/auth/register'' c JUndefined)) of
           Inl e \<Rightarrow>
             if map_option status (response e) = Some 401
             then (localStorage (snd a))(''authToken'' := None, ''user'' := None)
             else localStorage (snd a)
         | Inr r \<Rightarrow>
             if user_write_refused P (snd a) (data r)
             then (localStorage (snd a))(''authToken'' \<mapsto> to_string P (js_prop (data r) ''token''))
             else localStorage (snd a))
      \<and> (map_option status (response err) = Some 401 \<longrightarrow>
           localStorage (snd (fst (register P net a c))) =
             (localStorage (snd a))(''authToken'' := None, ''user'' := None))
      \<and> \<not> isAuthenticated (fst (fst (register P net a c)))
      \<and> (map_option status (response err) \<noteq> Some 401
           \<and> (\<forall>r. net (request_interceptor P (snd a) (api_config ''post'' ''/auth/register'' c JUndefined)) = Inr r
                  \<longrightarrow> \<not> user_write_refused P (snd a) (data r)) \<longrightarrow>
           localStorage (snd (fst (register P net a c))) = localStorage (snd a)
           \<and> fst (AuthProvider_mount P (snd (fst (register P net a c)))) =
               fst (AuthProvider_mount P (snd a))))"
  apply (rule conjI)
  subgoal by (rule impI) (rule login_failed_summary)
  subgoal by (rule impI) (rule register_failed_summary)
  done

theorem failed_auth_call_storage_witness:
  "snd (login sample_engine
         (\<lambda>config. Inl \<lparr>message = ''Request failed with status code 500'', request = True,
            response = Some \<lparr>status = 500, data = JObj [(''error'', JStr ''Internal server error'')]\<rparr>\<rparr>)
         (run sample_engine
            (initialState, \<lparr>localStorage = Map.empty, location_href = ''/login'', console = []\<rparr>)
            [Login (JObj [(''email'', JStr ''admin@clinic.com''), (''password'', JStr ''admin123'')])
               (Inr \<lparr>status = 200,
                     data = JObj [(''user'', JObj [(''id'', JNum 1), (''role'', JStr ''admin'')]),
                                  (''token'', JStr ''abc'')]\<rparr>)])
         (JObj [(''email'', JStr ''admin@clinic.com''), (''password'', JStr ''wrong'')])) =
     Inl \<lparr>message = ''Request failed with status code 500'', request = True,
          response = Some \<lparr>status = 500, data = JObj [(''error'', JStr ''Internal server error'')]\<rparr>\<rparr>
   \<and> localStorage (snd (fst (login sample_engine
         (\<lambda>config. Inl \<lparr>message = ''Request failed with status code 500'', request = True,
            response = Some \<lparr>status = 500, data = JObj [(''error'', JStr ''Internal server error'')]\<rparr>\<rparr>)
         (run sample_engine
            (initialState, \<lparr>localStorage = Map.empty, location_href = ''/login'', console = []\<rparr>)
            [Login (JObj [(''email'', JStr ''admin@clinic.com''), (''password'', JStr ''admin123'')])
               (Inr \<lparr>status = 200,
                     data = JObj [(''user'', JObj [(''id'', JNum 1), (''role'', JStr ''admin'')]),
                                  (''token'', JStr ''abc'')]\<rparr>)])
         (JObj [(''email'', JStr ''admin@clinic.com''), (''password'', JStr ''wrong'')])))) =
     localStorage (snd (run sample_engine
            (initialState, \<lparr>localStorage = Map.empty, location_href = ''/login'', console = []\<rparr>)
            [Login (JObj [(''email'', JStr ''admin@clinic.com''), (''password'', JStr ''admin123'')])
               (Inr \<lparr>status = 200,
                     data = JObj [(''user'', JObj [(''id'', JNum 1), (''role'', JStr ''admin'')]),
                                  (''token'', JStr ''abc'')]\<rparr>)]))
   \<and> localStorage (snd (run sample_engine
            (initialState, \<lparr>localStorage = Map.empty, location_href = ''/login'', console = []\<rparr>)
            [Login (JObj [(''email'', JStr ''admin@clinic.com''), (''password'', JStr ''admin123'')])
               (Inr \<lparr>status = 200,
                     data = JObj [(''user'', JObj [(''id'', JNum 1), (''role'', JStr ''admin'')]),
                                  (''token'', JStr ''abc'')]\<rparr>)]))
       ''authToken'' = Some ''abc''
   \<and> snd (login full_storage_engine
         (\<lambda>config. Inr \<lparr>status = 200,
            data = JObj [(''user'', JObj [(''id'', JNum 2), (''role'', JStr ''clinician'')]),
                         (''token'', JStr ''xyz'')]\<rparr>)
         (initialState,
          \<lparr>localStorage = [''authToken'' \<mapsto> ''abc''], location_href = ''/login'', console = []\<rparr>)
         (JObj [(''email'', JStr ''nurse@clinic.com''), (''password'', JStr ''nurse123'')])) =
     Inl \<lparr>message = ''The quota has been exceeded.'', request = False, response = None\<rparr>
   \<and> localStorage (snd (fst (login full_storage_engine
         (\<lambda>config. Inr \<lparr>status = 200,
            data = JObj [(''user'', JObj [(''id'', JNum 2), (''role'', JStr ''clinician'')]),
                         (''token'', JStr ''xyz'')]\<rparr>)
         (initialState,
          \<lparr>localStorage = [''authToken'' \<mapsto> ''abc''], location_href = ''/login'', console = []\<rparr>)
         (JObj [(''email'', JStr ''nurse@clinic.com''), (''password'', JStr ''nurse123'')]))))
       ''authToken'' = Some ''xyz''"
proof -
  let ?e = "\<lparr>message = ''Request failed with status code 500'', request = True,
            response = Some \<lparr>status = 500, data = JObj [(''error'', JStr ''Internal server error'')]\<rparr>\<rparr>"
  let ?a = "run sample_engine
            (initialState, \<lparr>localStorage = Map.empty, location_href = ''/login'', console = []\<rparr>)
            [Login (JObj [(''email'', JStr ''admin@clinic.com''), (''password'', JStr ''admin123'')])
               (Inr \<lparr>status = 200,
                     data = JObj [(''user'', JObj [(''id'', JNum 1), (''role'', JStr ''admin'')]),
                                  (''token'', JStr ''abc'')]\<rparr>)]"
  let ?c = "JObj [(''email'', JStr ''admin@clinic.com''), (''password'', JStr ''wrong'')]"
  have failed: "snd (login sample_engine (\<lambda>config. Inl ?e) ?a ?c) = Inl ?e"
    by (rule login_rejected) simp
  have other: "map_option status (response ?e) \<noteq> Some 401"
    by simp
  have kept: "localStorage (snd (fst (login sample_engine (\<lambda>config. Inl ?e) ?a ?c))) =
                localStorage (snd ?a)"
    using failed_auth_call_storage [of sample_engine "\<lambda>config. Inl ?e" ?a ?c ?e] failed other
    by simp
  have held: "localStorage (snd ?a) ''authToken'' = Some ''abc''"
    by (simp add: run_def login_flow auth_flow_def authAPI_login_def api_request_def
        response_rejected_def response_fulfilled_def store_credentials_def js_member_def
        setItem_def write_item_def sample_engine_accepts removeItem_def)
  let ?q = "\<lparr>message = ''The quota has been exceeded.'', request = False, response = None\<rparr>"
  let ?r = "\<lparr>status = 200,
            data = JObj [(''user'', JObj [(''id'', JNum 2), (''role'', JStr ''clinician'')]),
                         (''token'', JStr ''xyz'')]\<rparr>"
  let ?b = "\<lparr>localStorage = [''authToken'' \<mapsto> ''abc''], location_href = ''/login'', console = []\<rparr>"
  let ?c' = "JObj [(''email'', JStr ''nurse@clinic.com''), (''password'', JStr ''nurse123'')]"
  have accepts: "Storage_accepts full_storage_engine contents k s = (k \<noteq> ''user'')" for contents k s
    by (simp add: full_storage_engine_def)
  have message: "QuotaExceeded_message full_storage_engine = ''The quota has been exceeded.''"
    by (simp add: full_storage_engine_def sample_engine_def)
  have refused: "snd (login full_storage_engine (\<lambda>config. Inr ?r) (initialState, ?b) ?c') = Inl ?q"
    by (simp add: login_flow auth_flow_def authAPI_login_def api_request_def
        response_fulfilled_def store_credentials_def js_member_def setItem_def write_item_def
        accepts message)
  have partial: "user_write_refused full_storage_engine ?b (data ?r)"
    by (simp add: user_write_refused_def accepts)
  have overwritten: "localStorage (snd (fst (login full_storage_engine (\<lambda>config. Inr ?r)
                       (initialState, ?b) ?c'))) ''authToken'' = Some ''xyz''"
    using failed_auth_call_storage [of full_storage_engine "\<lambda>config. Inr ?r" "(initialState, ?b)" ?c' ?q]
      refused partial
    by simp
  show ?thesis
    using failed kept held refused overwritten by (intro conjI)
qed

subsection \<open>The storage round trip\<close>

lemma auth_flow_Inr:
  assumes "snd (auth_flow P fallback state called) = Inr resp"
  shows "snd called = Inr resp
       \<and> snd (fst (auth_flow P fallback state called)) =
           write_item (write_item (fst called) ''authToken'' (to_string P (js_prop resp ''token''))) ''user''
             (to_string P (stringify_value P (js_prop resp ''user'')))
       \<and> fst (fst (auth_flow P fallback state called)) =
           \<lparr>user = js_prop resp ''user'', token = js_prop resp ''token'', isAuthenticated = True,
            isLoading = False, error = JNull\<rparr>"
  using assms
  by (cases state)
     (auto simp add: auth_flow_def store_credentials_def js_member_def setItem_def Let_def
       split: prod.splits sum.splits if_splits)

lemma login_Inr:
  assumes "snd (login P net a c) = Inr resp"
  shows "snd (fst (login P net a c)) =
           write_item (write_item (snd a) ''authToken'' (to_string P (js_prop resp ''token''))) ''user''
             (to_string P (stringify_value P (js_prop resp ''user'')))
       \<and> fst (fst (login P net a c)) =
           \<lparr>user = js_prop resp ''user'', token = js_prop resp ''token'', isAuthenticated = True,
            isLoading = False, error = JNull\<rparr>"
proof -
  let ?called = "authAPI_login P net (snd a) c"
  from assms have flow: "snd (auth_flow P ''Login failed'' (fst a) ?called) = Inr resp"
    by (simp add: login_flow)
  from auth_flow_Inr [OF flow] have "snd ?called = Inr resp"
    by simp
  then have "fst ?called = snd a"
    using authAPI_login_Inr [of P net "snd a" c "fst ?called" resp]
    by (cases ?called) simp
  with auth_flow_Inr [OF flow] show ?thesis
    by (simp add: login_flow)
qed

lemma register_Inr:
  assumes "snd (register P net a c) = Inr resp"
  shows "snd (fst (register P net a c)) =
           write_item (write_item (snd a) ''authToken'' (to_string P (js_prop resp ''token''))) ''user''
             (to_string P (stringify_value P (js_prop resp ''user'')))
       \<and> fst (fst (register P net a c)) =
           \<lparr>user = js_prop resp ''user'', token = js_prop resp ''token'', isAuthenticated = True,
            isLoading = False, error = JNull\<rparr>"
proof -
  let ?called = "authAPI_register P net (snd a) c"
  from assms have flow: "snd (auth_flow P ''Registration failed'' (fst a) ?called) = Inr resp"
    by (simp add: register_flow)
  from auth_flow_Inr [OF flow] have "snd ?called = Inr resp"
    by simp
  then have "fst ?called = snd a"
    using authAPI_register_Inr [of P net "snd a" c "fst ?called" resp]
    by (cases ?called) simp
  with auth_flow_Inr [OF flow] show ?thesis
    by (simp add: register_flow)
qed

lemma mount_stored:
  assumes "JSON_stringify P u = Some s" and "s \<noteq> []" and "JSON_parse P s = Inr u"
    and "t \<noteq> []"
    and "b' = write_item (write_item b ''authToken'' t) ''user'' (to_string P (stringify_value P u))"
  shows "AuthProvider_mount P b' =
           (\<lparr>user = u, token = JStr t, isAuthenticated = True, isLoading = False,
             error = JNull\<rparr>, b')"
proof -
  have tok: "localStorage b' ''authToken'' = Some t"
    and usr: "localStorage b' ''user'' = Some s"
    using assms by (simp_all add: write_item_def stringify_value_def)
  show ?thesis
    using restore_parsed [OF tok \<open>t \<noteq> []\<close> usr \<open>s \<noteq> []\<close> \<open>JSON_parse P s = Inr u\<close>]
      \<open>t \<noteq> []\<close>
    by (simp add: AuthProvider_mount_def initialState_def)
qed

text \<open>
  C6. Let a \<^verbatim>\<open>login\<close> or a \<^verbatim>\<open>register\<close> succeed with a response whose \<^verbatim>\<open>token\<close> is a
  non-empty string and whose \<^verbatim>\<open>user\<close> is a value that the engine's JSON functions write
  and read back unchanged (\<^verbatim>\<open>JSON.parse(JSON.stringify(user))\<close> is \<^verbatim>\<open>user\<close>; the text is
  never empty). Then storage holds the token and the text of the user, and a page load on
  that storage yields the authenticated session with the same token and a user equal to
  the one that was written, storage unchanged.
\<close>

theorem stored_credential_round_trip:
  assumes "JSON_stringify P u = Some s" and "s \<noteq> []" and "JSON_parse P s = Inr u"
    and "t \<noteq> []"
    and "js_prop resp ''user'' = u" and "js_prop resp ''token'' = JStr t"
  shows "(snd (login P net a c) = Inr resp \<longrightarrow>
            localStorage (snd (fst (login P net a c))) ''authToken'' = Some t
          \<and> localStorage (snd (fst (login P net a c))) ''user'' = Some s
          \<and> AuthProvider_mount P (snd (fst (login P net a c))) =
              (\<lparr>user = u, token = JStr t, isAuthenticated = True, isLoading = False,
                error = JNull\<rparr>, snd (fst (login P net a c))))
       \<and> (snd (register P net a c) = Inr resp \<longrightarrow>
            localStorage (snd (fst (register P net a c))) ''authToken'' = Some t
          \<and> localStorage (snd (fst (register P net a c))) ''user'' = Some s
          \<and> AuthProvider_mount P (snd (fst (register P net a c))) =
              (\<lparr>user = u, token = JStr t, isAuthenticated = True, isLoading = False,
                error = JNull\<rparr>, snd (fst (register P net a c))))"
proof (intro conjI impI)
  assume ok: "snd (login P net a c) = Inr resp"
  from login_Inr [OF ok] assms(5,6)
  have b': "snd (fst (login P net a c)) =
              write_item (write_item (snd a) ''authToken'' t) ''user'' (to_string P (stringify_value P u))"
    by simp
  from b' assms(1) show "localStorage (snd (fst (login P net a c))) ''authToken'' = Some t"
    by (simp add: write_item_def)
  from b' assms(1) show "localStorage (snd (fst (login P net a c))) ''user'' = Some s"
    by (simp add: write_item_def stringify_value_def)
  from mount_stored [OF assms(1-4) b']
  show "AuthProvider_mount P (snd (fst (login P net a c))) =
          (\<lparr>user = u, token = JStr t, isAuthenticated = True, isLoading = False,
            error = JNull\<rparr>, snd (fst (login P net a c)))" .
next
  assume ok: "snd (register P net a c) = Inr resp"
  from register_Inr [OF ok] assms(5,6)
  have b': "snd (fst (register P net a c)) =
              write_item (write_item (snd a) ''authToken'' t) ''user'' (to_string P (stringify_value P u))"
    by simp
  from b' assms(1) show "localStorage (snd (fst (register P net a c))) ''authToken'' = Some t"
    by (simp add: write_item_def)
  from b' assms(1) show "localStorage (snd (fst (register P net a c))) ''user'' = Some s"
    by (simp add: write_item_def stringify_value_def)
  from mount_stored [OF assms(1-4) b']
  show "AuthProvider_mount P (snd (fst (register P net a c))) =
          (\<lparr>user = u, token = JStr t, isAuthenticated = True, isLoading = False,
            error = JNull\<rparr>, snd (fst (register P net a c)))" .
qed

theorem stored_credential_round_trip_witness:
  "fst (AuthProvider_mount sample_engine
     (snd (fst (login sample_engine
        (\<lambda>config. Inr \<lparr>status = 200,
           data = JObj [(''user'', JObj [(''id'', JNum 7), (''firstName'', JStr ''Ada''),
                                         (''lastName'', JStr ''Lovelace''), (''role'', JStr ''admin''),
                                         (''hospitalId'', JNum 3)]),
                        (''token'', JStr ''abc'')]\<rparr>)
        (initialState, \<lparr>localStorage = Map.empty, location_href = ''/login'', console = []\<rparr>)
        (JObj [(''email'', JStr ''admin@clinic.com''), (''password'', JStr ''admin123'')]))))) =
     \<lparr>user = JObj [(''id'', JNum 7), (''firstName'', JStr ''Ada''),
                    (''lastName'', JStr ''Lovelace''), (''role'', JStr ''admin''),
                    (''hospitalId'', JNum 3)],
      token = JStr ''abc'', isAuthenticated = True, isLoading = False, error = JNull\<rparr>"
proof -
  let ?u = "JObj [(''id'', JNum 7), (''firstName'', JStr ''Ada''),
                  (''lastName'', JStr ''Lovelace''), (''role'', JStr ''admin''),
                  (''hospitalId'', JNum 3)]"
  let ?resp = "JObj [(''user'', ?u), (''token'', JStr ''abc'')]"
  let ?net = "\<lambda>config::request_config. Inr \<lparr>status = 200, data = ?resp\<rparr> :: js_error + http_response"
  let ?a = "(initialState, \<lparr>localStorage = Map.empty, location_href = ''/login'', console = []\<rparr>)"
  let ?c = "JObj [(''email'', JStr ''admin@clinic.com''), (''password'', JStr ''admin123'')]"
  let ?s = "the (json_text ?u)"
  have "json_text ?u = Some ?s"
    by code_simp
  then have written: "JSON_stringify sample_engine ?u = Some ?s"
    by (simp add: sample_engine_def)
  have nonempty: "?s \<noteq> []"
    by code_simp
  have "json_parse ?s = Inr ?u"
    by code_simp
  then have parsed: "JSON_parse sample_engine ?s = Inr ?u"
    by (simp add: sample_engine_def)
  have tok: "''abc'' \<noteq> []"
    by simp
  have pu: "js_prop ?resp ''user'' = ?u"
    by simp
  have pt: "js_prop ?resp ''token'' = JStr ''abc''"
    by simp
  have ok: "snd (login sample_engine ?net ?a ?c) = Inr ?resp"
    by (simp add: login_flow auth_flow_def authAPI_login_def api_request_def
        response_fulfilled_def store_credentials_def js_member_def setItem_def
        sample_engine_accepts)
  show ?thesis
    using stored_credential_round_trip [OF written nonempty parsed tok pu pt, of ?net ?a ?c] ok
    by simp
qed

subsection \<open>The invariant of the session\<close>

lemma login_Inr_answer:
  assumes "snd (login P (\<lambda>config. answer) a c) = Inr resp"
  shows "\<exists>r. answer = Inr r \<and> data r = resp \<and> \<not> nullish resp"
  using assms
  by (auto simp add: login_flow auth_flow_def authAPI_login_def api_request_def
      response_rejected_def response_fulfilled_def store_credentials_def js_member_def
      setItem_def Let_def
      split: sum.splits prod.splits if_splits)

lemma register_Inr_answer:
  assumes "snd (register P (\<lambda>config. answer) a c) = Inr resp"
  shows "\<exists>r. answer = Inr r \<and> data r = resp \<and> \<not> nullish resp"
  using assms
  by (auto simp add: register_flow auth_flow_def authAPI_register_def api_request_def
      response_rejected_def response_fulfilled_def store_credentials_def js_member_def
      setItem_def Let_def
      split: sum.splits prod.splits if_splits)

lemma restore_session_cases:
  "fst (restore P a) = authReducer (fst a) (LOAD_USER_FROM_STORAGE JNull JNull)
   \<or> (\<exists>v. truthy (getItem (snd a) ''authToken'') \<and> truthy (getItem (snd a) ''user'')
          \<and> JSON_parse P (to_string P (getItem (snd a) ''user'')) = Inr v
          \<and> fst (restore P a) =
              authReducer (fst a) (LOAD_USER_FROM_STORAGE v (getItem (snd a) ''authToken'')))"
  by (cases a) (auto simp add: restore_def Let_def split: sum.splits)

lemma step_not_authenticated:
  assumes "\<not> isAuthenticated (fst a) \<longrightarrow> user (fst a) = JNull \<and> token (fst a) = JNull"
  shows "\<not> isAuthenticated (fst (step P a ev)) \<longrightarrow>
           user (fst (step P a ev)) = JNull \<and> token (fst (step P a ev)) = JNull"
proof (cases ev)
  case Restore
  then show ?thesis
    using restore_session_cases [of P a] by auto
next
  case (Login c answer)
  show ?thesis
  proof (cases "snd (login P (\<lambda>config. answer) a c)")
    case (Inl err)
    from login_failed_session [OF Inl] Login show ?thesis
      by simp
  next
    case (Inr resp)
    from login_Inr [OF Inr] Login show ?thesis
      by simp
  qed
next
  case (Register c answer)
  show ?thesis
  proof (cases "snd (register P (\<lambda>config. answer) a c)")
    case (Inl err)
    from register_failed_session [OF Inl] Register show ?thesis
      by simp
  next
    case (Inr resp)
    from register_Inr [OF Inr] Register show ?thesis
      by simp
  qed
next
  case Logout
  then show ?thesis
    by (simp add: logout_def)
next
  case ClearError
  with assms show ?thesis
    by (simp add: clearError_def)
qed

lemma step_consistent:
  assumes "isAuthenticated (fst a) \<longleftrightarrow> present (user (fst a)) \<and> present (token (fst a))"
    and "event_ok P a ev"
  shows "isAuthenticated (fst (step P a ev)) \<longleftrightarrow>
           present (user (fst (step P a ev))) \<and> present (token (fst (step P a ev)))"
proof (cases ev)
  case Restore
  from restore_session_cases [of P a] show ?thesis
  proof
    assume "fst (restore P a) = authReducer (fst a) (LOAD_USER_FROM_STORAGE JNull JNull)"
    with Restore show ?thesis
      by (simp add: present_def)
  next
    assume "\<exists>v. truthy (getItem (snd a) ''authToken'') \<and> truthy (getItem (snd a) ''user'')
          \<and> JSON_parse P (to_string P (getItem (snd a) ''user'')) = Inr v
          \<and> fst (restore P a) =
              authReducer (fst a) (LOAD_USER_FROM_STORAGE v (getItem (snd a) ''authToken''))"
    then obtain v where t: "truthy (getItem (snd a) ''authToken'')"
      and u: "truthy (getItem (snd a) ''user'')"
      and p: "JSON_parse P (to_string P (getItem (snd a) ''user'')) = Inr v"
      and s: "fst (restore P a) =
              authReducer (fst a) (LOAD_USER_FROM_STORAGE v (getItem (snd a) ''authToken''))"
      by blast
    from assms(2) Restore t u p have "present v"
      by simp
    with Restore s t truthy_present [OF t] show ?thesis
      by simp
  qed
next
  case (Login c answer)
  show ?thesis
  proof (cases "snd (login P (\<lambda>config. answer) a c)")
    case (Inl err)
    from login_failed_session [OF Inl] Login show ?thesis
      by (simp add: present_def)
  next
    case (Inr resp)
    from login_Inr_answer [OF Inr] obtain r
      where "answer = Inr r" and "data r = resp" and "\<not> nullish resp"
      by blast
    with assms(2) Login
    have "present (js_prop resp ''user'') \<and> present (js_prop resp ''token'')"
      by auto
    with login_Inr [OF Inr] Login show ?thesis
      by simp
  qed
next
  case (Register c answer)
  show ?thesis
  proof (cases "snd (register P (\<lambda>config. answer) a c)")
    case (Inl err)
    from register_failed_session [OF Inl] Register show ?thesis
      by (simp add: present_def)
  next
    case (Inr resp)
    from register_Inr_answer [OF Inr] obtain r
      where "answer = Inr r" and "data r = resp" and "\<not> nullish resp"
      by blast
    with assms(2) Register
    have "present (js_prop resp ''user'') \<and> present (js_prop resp ''token'')"
      by auto
    with register_Inr [OF Inr] Register show ?thesis
      by simp
  qed
next
  case Logout
  then show ?thesis
    by (simp add: logout_def present_def)
next
  case ClearError
  with assms(1) show ?thesis
    by (simp add: clearError_def)
qed

lemma run_not_authenticated:
  assumes "\<not> isAuthenticated (fst a) \<longrightarrow> user (fst a) = JNull \<and> token (fst a) = JNull"
  shows "\<not> isAuthenticated (fst (run P a evs)) \<longrightarrow>
           user (fst (run P a evs)) = JNull \<and> token (fst (run P a evs)) = JNull"
  using assms
proof (induction evs arbitrary: a)
  case Nil
  then show ?case
    by (simp add: run_def)
next
  case (Cons ev evs)
  from Cons.IH [OF step_not_authenticated [OF Cons.prems, of P ev]] show ?case
    by (simp add: run_def)
qed

lemma run_consistent:
  assumes "isAuthenticated (fst a) \<longleftrightarrow> present (user (fst a)) \<and> present (token (fst a))"
    and "well_formed P a evs"
  shows "isAuthenticated (fst (run P a evs)) \<longleftrightarrow>
           present (user (fst (run P a evs))) \<and> present (token (fst (run P a evs)))"
  using assms
proof (induction evs arbitrary: a)
  case Nil
  then show ?case
    by (simp add: run_def)
next
  case (Cons ev evs)
  from Cons.prems(2) have ok: "event_ok P a ev" and rest: "well_formed P (step P a ev) evs"
    by simp_all
  from Cons.IH [OF step_consistent [OF Cons.prems(1) ok] rest] show ?case
    by (simp add: run_def)
qed

text \<open>
  C1, as stated: in every state reached from the initial one by the transitions,
  \<^verbatim>\<open>isAuthenticated\<close> holds exactly when user and token are both present. The reducer
  takes its payload on trust: \<^verbatim>\<open>LOGIN_SUCCESS\<close> sets the flag whatever the response
  holds, so a response without a \<^verbatim>\<open>user\<close> gives an authenticated session whose user is
  \<^verbatim>\<open>undefined\<close>; and \<^verbatim>\<open>LOAD_USER_FROM_STORAGE\<close> looks at the token only, so a stored
  user text \<^verbatim>\<open>null\<close> (which is JSON) gives an authenticated session whose user is
  \<^verbatim>\<open>null\<close>.
\<close>

theorem session_invariant_counterexample:
  "\<not> (isAuthenticated (fst (run sample_engine
          (initialState, \<lparr>localStorage = Map.empty, location_href = ''/login'', console = []\<rparr>)
          [Login (JObj [(''email'', JStr ''admin@clinic.com''), (''password'', JStr ''admin123'')])
             (Inr \<lparr>status = 200, data = JObj [(''token'', JStr ''abc'')]\<rparr>)]))
       \<longleftrightarrow> present (user (fst (run sample_engine
          (initialState, \<lparr>localStorage = Map.empty, location_href = ''/login'', console = []\<rparr>)
          [Login (JObj [(''email'', JStr ''admin@clinic.com''), (''password'', JStr ''admin123'')])
             (Inr \<lparr>status = 200, data = JObj [(''token'', JStr ''abc'')]\<rparr>)])))
         \<and> present (token (fst (run sample_engine
          (initialState, \<lparr>localStorage = Map.empty, location_href = ''/login'', console = []\<rparr>)
          [Login (JObj [(''email'', JStr ''admin@clinic.com''), (''password'', JStr ''admin123'')])
             (Inr \<lparr>status = 200, data = JObj [(''token'', JStr ''abc'')]\<rparr>)]))))
   \<and> \<not> (isAuthenticated (fst (run sample_engine
          (initialState,
           \<lparr>localStorage = [''authToken'' \<mapsto> ''abc'', ''user'' \<mapsto> ''null''],
            location_href = ''/dashboard'', console = []\<rparr>)
          [Restore]))
       \<longleftrightarrow> present (user (fst (run sample_engine
          (initialState,
           \<lparr>localStorage = [''authToken'' \<mapsto> ''abc'', ''user'' \<mapsto> ''null''],
            location_href = ''/dashboard'', console = []\<rparr>)
          [Restore])))
         \<and> present (token (fst (run sample_engine
          (initialState,
           \<lparr>localStorage = [''authToken'' \<mapsto> ''abc'', ''user'' \<mapsto> ''null''],
            location_href = ''/dashboard'', console = []\<rparr>)
          [Restore]))))"
proof -
  have parsed: "JSON_parse sample_engine ''null'' = Inr JNull"
    by code_simp
  have stored: "restore sample_engine
          (initialState,
           \<lparr>localStorage = [''authToken'' \<mapsto> ''abc'', ''user'' \<mapsto> ''null''],
            location_href = ''/dashboard'', console = []\<rparr>) =
        (authReducer initialState (LOAD_USER_FROM_STORAGE JNull (JStr ''abc'')),
         \<lparr>localStorage = [''authToken'' \<mapsto> ''abc'', ''user'' \<mapsto> ''null''],
            location_href = ''/dashboard'', console = []\<rparr>)"
    by (rule restore_parsed [OF _ _ _ _ parsed]) simp_all
  show ?thesis
    by (simp add: run_def stored [unfolded initialState_def] present_def login_flow
        auth_flow_def authAPI_login_def api_request_def response_fulfilled_def
        store_credentials_def js_member_def setItem_def write_item_def sample_engine_accepts
        initialState_def)
qed

text \<open>
  C1, amended. In every state reached from the initial state, on any storage, by any
  sequence of \<^verbatim>\<open>restore\<close>, \<^verbatim>\<open>login\<close>, \<^verbatim>\<open>register\<close>, \<^verbatim>\<open>logout\<close> and \<^verbatim>\<open>clearError\<close>:
  when \<^verbatim>\<open>isAuthenticated\<close> is false, user and token are both \<^verbatim>\<open>null\<close>; and when every
  response accepted by \<^verbatim>\<open>login\<close> or \<^verbatim>\<open>register\<close> carried a user and a token that are
  present, and every stored user that \<^verbatim>\<open>restore\<close> parsed was present,
  \<^verbatim>\<open>isAuthenticated\<close> is true exactly when user and token are both present.
\<close>

theorem session_invariant:
  "(\<not> isAuthenticated (fst (run P (initialState, b) evs)) \<longrightarrow>
      user (fst (run P (initialState, b) evs)) = JNull
      \<and> token (fst (run P (initialState, b) evs)) = JNull)
   \<and> (well_formed P (initialState, b) evs \<longrightarrow>
        (isAuthenticated (fst (run P (initialState, b) evs)) \<longleftrightarrow>
           present (user (fst (run P (initialState, b) evs)))
           \<and> present (token (fst (run P (initialState, b) evs)))))"
proof -
  have start: "\<not> isAuthenticated (fst (initialState, b)) \<longrightarrow>
      user (fst (initialState, b)) = JNull \<and> token (fst (initialState, b)) = JNull"
    by (simp add: initialState_def)
  have start': "isAuthenticated (fst (initialState, b)) \<longleftrightarrow>
      present (user (fst (initialState, b))) \<and> present (token (fst (initialState, b)))"
    by (simp add: initialState_def present_def)
  show ?thesis
    using run_not_authenticated [OF start, of P evs] run_consistent [OF start', of P evs]
    by blast
qed

theorem session_invariant_witness:
  "well_formed sample_engine
     (initialState, \<lparr>localStorage = Map.empty, location_href = ''/login'', console = []\<rparr>)
     [Restore,
      Login (JObj [(''email'', JStr ''admin@clinic.com''), (''password'', JStr ''admin123'')])
        (Inr \<lparr>status = 200,
              data = JObj [(''user'', JObj [(''id'', JNum 1), (''role'', JStr ''admin'')]),
                           (''token'', JStr ''abc'')]\<rparr>),
      ClearError]
   \<and> isAuthenticated (fst (run sample_engine
     (initialState, \<lparr>localStorage = Map.empty, location_href = ''/login'', console = []\<rparr>)
     [Restore,
      Login (JObj [(''email'', JStr ''admin@clinic.com''), (''password'', JStr ''admin123'')])
        (Inr \<lparr>status = 200,
              data = JObj [(''user'', JObj [(''id'', JNum 1), (''role'', JStr ''admin'')]),
                           (''token'', JStr ''abc'')]\<rparr>),
      ClearError]))
   \<and> present (user (fst (run sample_engine
     (initialState, \<lparr>localStorage = Map.empty, location_href = ''/login'', console = []\<rparr>)
     [Restore,
      Login (JObj [(''email'', JStr ''admin@clinic.com''), (''password'', JStr ''admin123'')])
        (Inr \<lparr>status = 200,
              data = JObj [(''user'', JObj [(''id'', JNum 1), (''role'', JStr ''admin'')]),
                           (''token'', JStr ''abc'')]\<rparr>),
      ClearError])))
   \<and> present (token (fst (run sample_engine
     (initialState, \<lparr>localStorage = Map.empty, location_href = ''/login'', console = []\<rparr>)
     [Restore,
      Login (JObj [(''email'', JStr ''admin@clinic.com''), (''password'', JStr ''admin123'')])
        (Inr \<lparr>status = 200,
              data = JObj [(''user'', JObj [(''id'', JNum 1), (''role'', JStr ''admin'')]),
                           (''token'', JStr ''abc'')]\<rparr>),
      ClearError])))"
proof -
  let ?b = "\<lparr>localStorage = Map.empty, location_href = ''/login'', console = []\<rparr>"
  let ?evs = "[Restore,
      Login (JObj [(''email'', JStr ''admin@clinic.com''), (''password'', JStr ''admin123'')])
        (Inr \<lparr>status = 200,
              data = JObj [(''user'', JObj [(''id'', JNum 1), (''role'', JStr ''admin'')]),
                           (''token'', JStr ''abc'')]\<rparr>),
      ClearError]"
  have wf: "well_formed sample_engine (initialState, ?b) ?evs"
    by (simp add: restore_def getItem_def present_def)
  have auth: "isAuthenticated (fst (run sample_engine (initialState, ?b) ?evs))"
    by (simp add: run_def restore_def getItem_def login_flow auth_flow_def authAPI_login_def
        api_request_def response_fulfilled_def store_credentials_def js_member_def
        setItem_def write_item_def sample_engine_accepts clearError_def)
  show ?thesis
    using session_invariant [of sample_engine ?b ?evs] wf auth
    by blast
qed

subsection \<open>clearError\<close>

text \<open>
  C9. In every state, \<^verbatim>\<open>clearError()\<close> sets the error field to \<^verbatim>\<open>null\<close> and leaves
  \<^verbatim>\<open>user\<close>, \<^verbatim>\<open>token\<close>, \<^verbatim>\<open>isAuthenticated\<close>, \<^verbatim>\<open>isLoading\<close> and the browser as they
  were; applying it twice gives the same state as applying it once.
\<close>

theorem clearError_frame_idempotent:
  "error (fst (clearError a)) = JNull
   \<and> user (fst (clearError a)) = user (fst a)
   \<and> token (fst (clearError a)) = token (fst a)
   \<and> isAuthenticated (fst (clearError a)) = isAuthenticated (fst a)
   \<and> isLoading (fst (clearError a)) = isLoading (fst a)
   \<and> snd (clearError a) = snd a
   \<and> clearError (clearError a) = clearError a"
  by (simp add: clearError_def)

subsection \<open>hasRole\<close>

text \<open>
  C10. In every state, \<^verbatim>\<open>hasRole(["admin"])\<close> is false when the user is \<^verbatim>\<open>null\<close> or
  \<^verbatim>\<open>undefined\<close>, and otherwise it is true exactly when \<^verbatim>\<open>user.role === "admin"\<close>.
\<close>

theorem hasRole_admin:
  "hasRole state (JArr [JStr ''admin'']) =
     (if nullish (user state) then False
      else strict_eq (js_prop (user state) ''role'') (JStr ''admin''))"
proof (cases "truthy (user state)")
  case True
  then have "\<not> nullish (user state)"
    using truthy_present [of "user state"] by (simp add: present_def)
  with True show ?thesis
    by (simp add: hasRole_def strict_eq_JStr)
next
  case False
  then show ?thesis
    by (simp add: hasRole_def strict_eq_JStr js_prop_falsy)
qed

end
